theory Spec2Isabelle
  imports Main "HOL-Library.AList"
begin

section \<open>The Go library functions that services.go calls\<close>

text \<open>
  A Go string is a sequence of bytes; it is modelled as a \<open>string\<close> (a list of 8-bit
  characters). \<open>byte c\<close> is the numeric value of a byte.
\<close>

definition byte :: "char \<Rightarrow> nat" where
  "byte c = of_char c"

subsection \<open>Package strings, for the one-byte separator "."\<close>

text \<open>
  \<open>strings.Contains(s, sep)\<close>, \<open>strings.Split(s, sep)\<close>, \<open>strings.SplitN(s, sep, n)\<close> and
  \<open>strings.Join(parts, sep)\<close>, for a separator of one byte (services.go only ever passes
  "."). \<open>Split\<close> of the empty string is the one-element list holding the empty string;
  \<open>SplitN\<close> with n = 0 returns nil, with n > 0 at most n parts, the last one the unsplit
  rest.
\<close>

definition Contains :: "string \<Rightarrow> char \<Rightarrow> bool" where
  "Contains s sep = (sep \<in> set s)"

fun Split :: "string \<Rightarrow> char \<Rightarrow> string list" where
  "Split [] sep = [[]]"
| "Split (c # cs) sep =
     (if c = sep then [] # Split cs sep
      else (case Split cs sep of
              [] \<Rightarrow> [[c]]
            | p # ps \<Rightarrow> (c # p) # ps))"

fun SplitN :: "string \<Rightarrow> char \<Rightarrow> nat \<Rightarrow> string list" where
  "SplitN s sep 0 = []"
| "SplitN s sep (Suc 0) = [s]"
| "SplitN s sep (Suc (Suc n)) =
     (if sep \<in> set s
      then takeWhile (\<lambda>c. c \<noteq> sep) s # SplitN (tl (dropWhile (\<lambda>c. c \<noteq> sep) s)) sep (Suc n)
      else [s])"

fun Join :: "string list \<Rightarrow> string \<Rightarrow> string" where
  "Join [] sep = []"
| "Join [p] sep = p"
| "Join (p # q # ps) sep = p @ sep @ Join (q # ps) sep"

text \<open>\<open>strings.HasSuffix(s, suffix)\<close>.\<close>

definition HasSuffix :: "string \<Rightarrow> string \<Rightarrow> bool" where
  "HasSuffix s suffix =
     (length suffix \<le> length s \<and> drop (length s - length suffix) s = suffix)"

text \<open>
  \<open>strings.Title(s)\<close> maps every letter that follows a separator (and the first one) to
  its title case. On a string of ASCII bytes the library needs no Unicode table: a
  separator is every byte but a digit, a letter and the underscore, and the title case
  of a lower-case letter is the upper-case one. The dot is therefore a separator. On a
  string that holds a byte above 0x7F the result depends on the Unicode tables of the Go
  release; it is the parameter \<open>titleNonASCII\<close>.
\<close>

definition isSeparator :: "nat \<Rightarrow> bool" where
  "isSeparator r =
     (\<not> ((0x30 \<le> r \<and> r \<le> 0x39) \<or> (0x61 \<le> r \<and> r \<le> 0x7A)
         \<or> (0x41 \<le> r \<and> r \<le> 0x5A) \<or> r = 0x5F))"

definition ToTitle :: "nat \<Rightarrow> nat" where
  "ToTitle r = (if 0x61 \<le> r \<and> r \<le> 0x7A then r - 0x20 else r)"

fun titleFrom :: "nat \<Rightarrow> string \<Rightarrow> string" where
  "titleFrom prev [] = []"
| "titleFrom prev (c # cs) =
     (if isSeparator prev then char_of (ToTitle (byte c)) else c) # titleFrom (byte c) cs"

definition Title :: "(string \<Rightarrow> string) \<Rightarrow> string \<Rightarrow> string" where
  "Title titleNonASCII s =
     (if list_all (\<lambda>c. byte c < 0x80) s then titleFrom 0x20 s else titleNonASCII s)"

subsection \<open>Packages unicode/utf8 and unicode\<close>

definition RuneError :: nat where
  "RuneError = 0xFFFD"

text \<open>
  \<open>utf8.DecodeRuneInString(s)\<close>: the first rune of s and its width in bytes;
  (RuneError, 0) for the empty string and (RuneError, 1) for an invalid encoding.
\<close>

fun DecodeRuneInString :: "string \<Rightarrow> nat \<times> nat" where
  "DecodeRuneInString [] = (RuneError, 0)"
| "DecodeRuneInString (c0 # rest) =
     (let s0 = byte c0 in
      if s0 < 0x80 then (s0, 1)
      else if s0 < 0xC2 \<or> 0xF4 < s0 then (RuneError, 1)
      else
        let sz = (if s0 < 0xE0 then 2 else if s0 < 0xF0 then 3 else (4::nat));
            lo = (if s0 = 0xE0 then 0xA0 else if s0 = 0xF0 then 0x90 else 0x80);
            hi = (if s0 = 0xED then 0x9F else if s0 = 0xF4 then 0x8F else 0xBF)
        in
        if Suc (length rest) < sz then (RuneError, 1)
        else
          let s1 = byte (rest ! 0) in
          if s1 < lo \<or> hi < s1 then (RuneError, 1)
          else if sz \<le> 2 then ((s0 mod 0x20) * 0x40 + s1 mod 0x40, 2)
          else
            let s2 = byte (rest ! 1) in
            if s2 < 0x80 \<or> 0xBF < s2 then (RuneError, 1)
            else if sz \<le> 3
            then ((s0 mod 0x10) * 0x1000 + (s1 mod 0x40) * 0x40 + s2 mod 0x40, 3)
            else
              let s3 = byte (rest ! 2) in
              if s3 < 0x80 \<or> 0xBF < s3 then (RuneError, 1)
              else ((s0 mod 8) * 0x40000 + (s1 mod 0x40) * 0x1000
                    + (s2 mod 0x40) * 0x40 + s3 mod 0x40, 4))"

text \<open>
  \<open>unicode.IsUpper(r)\<close>. In Latin-1 the upper-case letters are A-Z, U+00C0-U+00D6 and
  U+00D8-U+00DE. Beyond Latin-1 the library searches its range table \<open>unicode.Upper\<close>,
  which is data of the Go release: it is the parameter \<open>upperTab\<close>. U+FFFD, the
  replacement character, is a symbol (category So) and is in no release's table of
  upper-case letters; that one entry is written out.
\<close>

definition IsUpper :: "(nat \<Rightarrow> bool) \<Rightarrow> nat \<Rightarrow> bool" where
  "IsUpper upperTab r =
     (if r \<le> 0xFF
      then (0x41 \<le> r \<and> r \<le> 0x5A) \<or> (0xC0 \<le> r \<and> r \<le> 0xD6) \<or> (0xD8 \<le> r \<and> r \<le> 0xDE)
      else r \<noteq> RuneError \<and> upperTab r)"

subsection \<open>Package reflect: types and methods\<close>

text \<open>
  A \<open>reflect.Type\<close> as far as services.go inspects it: its kind, its name, its package
  path and, for a pointer type, the type it points to. A pointer type can be named
  (\<open>type P *T\<close>); an unnamed one has the empty name and the empty package path. Two types
  are the same type when they are built the same way from the same names.
\<close>

datatype okind =
    Invalid | Bool | Int | Int8 | Int16 | Int32 | Int64
  | Uint | Uint8 | Uint16 | Uint32 | Uint64 | Uintptr
  | Float32 | Float64 | Complex64 | Complex128
  | Array | Chan | Func | Interface | Map | Slice | String | Struct | UnsafePointer

datatype kind = Ptr | NonPtr okind

datatype rtype =
    TPtr string string rtype
  | TOther okind string string

fun Kind :: "rtype \<Rightarrow> kind" where
  "Kind (TPtr n p e) = Ptr"
| "Kind (TOther k n p) = NonPtr k"

fun Name :: "rtype \<Rightarrow> string" where
  "Name (TPtr n p e) = n"
| "Name (TOther k n p) = n"

fun PkgPath :: "rtype \<Rightarrow> string" where
  "PkgPath (TPtr n p e) = p"
| "PkgPath (TOther k n p) = p"

text \<open>
  \<open>t.Elem()\<close>. services.go calls it on pointer types only (each call is guarded by
  \<open>t.Kind() == reflect.Ptr\<close>); None stands for the calls it never makes.
\<close>

fun Elem :: "rtype \<Rightarrow> rtype option" where
  "Elem (TPtr n p e) = Some e"
| "Elem (TOther k n p) = None"

definition typeOfError :: rtype where
  "typeOfError = TOther Interface ''error'' []"

definition typeOfRequest :: rtype where
  "typeOfRequest = TOther Struct ''Request'' ''net/http''"

section \<open>Errors, requests and responses\<close>

text \<open>
  The error values of services.go, one constructor for each \<open>fmt.Errorf\<close> with the
  value it formats. \<open>Foreign\<close> is an error made elsewhere (by a codec or by a service
  method), with its message. \<open>Panic\<close> is not a returned error: it marks a run-time
  panic of the reflect package, which ends the call.
\<close>

datatype error =
    NotExported string
  | NoServiceName "rtype option"
  | NoSuitableMethods string
  | AlreadyDefined string
  | IllFormed string
  | CantFindService string
  | CantFindMethod string
  | Foreign string
  | Panic string

text \<open>
  A request as ApiHandler and ServeHTTP read it: the HTTP verb \<open>r.Method\<close>, the value
  \<open>r.URL.Query().Get("format")\<close>, and the string values of the request's context.
\<close>

record request =
  reqMethod :: string
  queryFormat :: string
  ctx :: "string \<rightharpoonup> string"

section \<open>The service registry\<close>

text \<open>
  A \<open>reflect.Method\<close>: its name, its package path (empty for an exported method), the
  argument types \<open>Type.In(i)\<close> with the receiver as \<open>In(0)\<close>, the result types
  \<open>Type.Out(i)\<close>, and \<open>Func\<close> bound to the service's receiver: from the request, the
  decoded argument and the fresh reply it computes the reply as the method leaves it
  and the error it returns (None for nil).
\<close>

record 'v rmethod =
  mName :: string
  mPkgPath :: string
  mIn :: "rtype list"
  mOut :: "rtype list"
  mFunc :: "request \<Rightarrow> 'v \<Rightarrow> 'v \<Rightarrow> 'v \<times> error option"

text \<open>
  A non-nil receiver passed to RegisterService: its dynamic type, whether it is a nil
  pointer of that type, and the method set \<open>rcvrType.Method(0..NumMethod()-1)\<close>.
  The nil interface value is None.
\<close>

record 'v receiver =
  rcvrType :: rtype
  rcvrIsNil :: bool
  rcvrMethods :: "'v rmethod list"

record 'v serviceMethod =
  smMethod :: "'v rmethod"
  argsType :: rtype
  replyType :: rtype

record 'v service =
  sName :: string
  sRcvr :: "'v receiver"
  sMethods :: "(string \<times> 'v serviceMethod) list"

text \<open>
  The registry. Go maps are association lists here, updated with \<open>AList.update\<close> and
  read with \<open>map_of\<close>. \<open>services\<close> is None while the Go map is nil (before the first
  successful registration). The mutex is not modelled: every operation below is one
  sequential call.
\<close>

record 'v serviceMap =
  services :: "(string \<times> 'v service) list option"

text \<open>The Go map read \<open>m.services[name]\<close>; a nil map holds nothing.\<close>

definition lookupService :: "'v serviceMap \<Rightarrow> string \<Rightarrow> 'v service option" where
  "lookupService m nm = (case services m of None \<Rightarrow> None | Some mp \<Rightarrow> map_of mp nm)"

text \<open>isExported returns true of a string is an exported (upper case) name.\<close>

definition isExported :: "(nat \<Rightarrow> bool) \<Rightarrow> string \<Rightarrow> bool" where
  "isExported upperTab nm = (let (runez, w) = DecodeRuneInString nm in IsUpper upperTab runez)"

text \<open>
  isExportedOrBuiltin returns true if a type is exported or a builtin. The loop
  \<open>for t.Kind() == reflect.Ptr { t = t.Elem() }\<close> is the recursion on pointer types.
\<close>

fun isExportedOrBuiltin :: "(nat \<Rightarrow> bool) \<Rightarrow> rtype \<Rightarrow> bool" where
  "isExportedOrBuiltin upperTab (TPtr n p e) = isExportedOrBuiltin upperTab e"
| "isExportedOrBuiltin upperTab (TOther k n p) =
     (isExported upperTab (Name (TOther k n p)) \<or> PkgPath (TOther k n p) = [])"

text \<open>
  \<open>reflect.Indirect(s.rcvr).Type().Name()\<close>: the name of the receiver's type, or of
  the type it points to when the receiver is a pointer. It panics on the nil interface
  and on a nil pointer (Indirect gives the zero Value, and Type() of the zero Value
  panics).
\<close>

definition indirectTypeName :: "'v receiver option \<Rightarrow> error + string" where
  "indirectTypeName rcvr =
     (case rcvr of
        None \<Rightarrow> Inl (Panic ''reflect: call of reflect.Value.Type on zero Value'')
      | Some rc \<Rightarrow>
         (case rcvrType rc of
            TPtr n p e \<Rightarrow>
              if rcvrIsNil rc
              then Inl (Panic ''reflect: call of reflect.Value.Type on zero Value'')
              else Inr (Name e)
          | TOther k n p \<Rightarrow> Inr n))"

text \<open>
  The first part of register ("Setup service"): the name of the service, or the error
  register returns before it looks at the methods.
\<close>

definition setupService ::
  "(nat \<Rightarrow> bool) \<Rightarrow> 'v receiver option \<Rightarrow> string \<Rightarrow> error + string" where
  "setupService upperTab rcvr nm =
     (case (if nm = [] then
              (case indirectTypeName rcvr of
                 Inl p \<Rightarrow> Inl p
               | Inr derived \<Rightarrow>
                  if \<not> isExported upperTab derived then Inl (NotExported derived)
                  else Inr derived)
            else Inr nm) of
        Inl e \<Rightarrow> Inl e
      | Inr sname \<Rightarrow>
         if sname = [] then Inl (NoServiceName (map_option rcvrType rcvr))
         else Inr sname)"

text \<open>
  The body of the loop over the receiver's methods ("Setup methods"): every
  \<open>continue\<close> leaves the method map as it is; a method that passes every test is stored
  under its name, with \<open>args.Elem()\<close> and \<open>reply.Elem()\<close> (both are pointer types
  there, so the last case distinction only names the two element types).
\<close>

definition setupMethod ::
  "(nat \<Rightarrow> bool) \<Rightarrow> (string \<times> 'v serviceMethod) list \<Rightarrow> 'v rmethod
    \<Rightarrow> (string \<times> 'v serviceMethod) list" where
  "setupMethod upperTab ms m =
     (if mPkgPath m \<noteq> [] then ms
      else if length (mIn m) \<noteq> 4 then ms
      else
        let reqType = mIn m ! 1 in
        if Kind reqType \<noteq> Ptr \<or> Elem reqType \<noteq> Some typeOfRequest then ms
        else
          let args = mIn m ! 2 in
          if Kind args \<noteq> Ptr \<or> \<not> isExportedOrBuiltin upperTab args then ms
          else
            let reply = mIn m ! 3 in
            if Kind reply \<noteq> Ptr \<or> \<not> isExportedOrBuiltin upperTab reply then ms
            else if length (mOut m) \<noteq> 1 then ms
            else if mOut m ! 0 \<noteq> typeOfError then ms
            else
              (case (Elem args, Elem reply) of
                 (Some argsElem, Some replyElem) \<Rightarrow>
                   AList.update (mName m)
                     \<lparr>smMethod = m, argsType = argsElem, replyType = replyElem\<rparr> ms
               | _ \<Rightarrow> ms))"

definition setupMethods ::
  "(nat \<Rightarrow> bool) \<Rightarrow> 'v rmethod list \<Rightarrow> (string \<times> 'v serviceMethod) list" where
  "setupMethods upperTab methods = foldl (setupMethod upperTab) [] methods"

text \<open>
  register adds a new service using reflection to extract its methods. It returns the
  error (None for nil) and the registry as the call leaves it. With the nil interface
  and a non-empty name, \<open>s.rcvrType\<close> is nil and \<open>s.rcvrType.NumMethod()\<close> panics.
\<close>

definition register ::
  "(nat \<Rightarrow> bool) \<Rightarrow> 'v serviceMap \<Rightarrow> 'v receiver option \<Rightarrow> string
    \<Rightarrow> error option \<times> 'v serviceMap" where
  "register upperTab m rcvr nm =
     (case setupService upperTab rcvr nm of
        Inl e \<Rightarrow> (Some e, m)
      | Inr sname \<Rightarrow>
         (case rcvr of
            None \<Rightarrow> (Some (Panic ''invalid memory address or nil pointer dereference''), m)
          | Some rc \<Rightarrow>
             let meths = setupMethods upperTab (rcvrMethods rc);
                 s = \<lparr>sName = sname, sRcvr = rc, sMethods = meths\<rparr>
             in
             if length meths = 0 then (Some (NoSuitableMethods sname), m)
             else
               (case services m of
                  None \<Rightarrow> (None, m\<lparr>services := Some (AList.update sname s [])\<rparr>)
                | Some mp \<Rightarrow>
                   (case map_of mp sname of
                      Some old \<Rightarrow> (Some (AlreadyDefined sname), m)
                    | None \<Rightarrow> (None, m\<lparr>services := Some (AList.update sname s mp)\<rparr>)))))"


text \<open>
  get returns a registered service given a method name in the dotted notation
  "Service.Method". Reading a nil Go map finds nothing.
\<close>

definition get ::
  "'v serviceMap \<Rightarrow> string \<Rightarrow> error + ('v service \<times> 'v serviceMethod)" where
  "get m mth =
     (let parts = Split mth (CHR ''.'') in
      if length parts \<noteq> 2 then Inl (IllFormed mth)
      else
        (case lookupService m (parts ! 0) of
           None \<Rightarrow> Inl (CantFindService mth)
         | Some svc \<Rightarrow>
            (case map_of (sMethods svc) (parts ! 1) of
               None \<Rightarrow> Inl (CantFindMethod mth)
             | Some sm \<Rightarrow> Inr (svc, sm))))"

text \<open>HasMethod returns true if the given method is registered.\<close>

definition HasMethod :: "'v serviceMap \<Rightarrow> string \<Rightarrow> bool" where
  "HasMethod s mth = (case get s mth of Inr found \<Rightarrow> True | Inl err \<Rightarrow> False)"

section \<open>The dispatcher\<close>

subsection \<open>The response writer of net/http\<close>

text \<open>
  An \<open>http.ResponseWriter\<close>: the header map the handler can still change, whether the
  status line has been written, the status and the headers that were written with it,
  and the body so far. \<open>WriteHeader\<close> writes the status with the headers as they are
  at that moment; a second call is ignored. \<open>Write\<close> first writes status 200 when no
  status was written yet. Header names are kept as the handler spells them (the library
  stores them in canonical case; HTTP header names are case-insensitive).
\<close>

record responseWriter =
  header :: "string \<rightharpoonup> string"
  wroteHeader :: bool
  status :: nat
  sentHeader :: "string \<rightharpoonup> string"
  body :: string

definition HeaderSet :: "responseWriter \<Rightarrow> string \<Rightarrow> string \<Rightarrow> responseWriter" where
  "HeaderSet w k v = w\<lparr>header := (header w)(k \<mapsto> v)\<rparr>"

definition WriteHeader :: "responseWriter \<Rightarrow> nat \<Rightarrow> responseWriter" where
  "WriteHeader w code =
     (if wroteHeader w then w
      else w\<lparr>wroteHeader := True, status := code, sentHeader := header w\<rparr>)"

definition Write :: "responseWriter \<Rightarrow> string \<Rightarrow> responseWriter" where
  "Write w bs =
     (let w1 = (if wroteHeader w then w else WriteHeader w 200)
      in w1\<lparr>body := body w1 @ bs\<rparr>)"

definition WritePureError :: "responseWriter \<Rightarrow> nat \<Rightarrow> string \<Rightarrow> responseWriter" where
  "WritePureError w st msg =
     Write (HeaderSet (WriteHeader w st) ''Content-Type'' ''text/plain; charset=utf-8'') msg"

subsection \<open>The codec\<close>

text \<open>
  The codec types (CodecRequest, codecServerResponseInterface, serverResponseXML,
  serverResponseJSON) are declared outside services.go. ServeHTTP uses them through
  four calls only, so the value \<open>codec.NewRequest(r, selectedCodec)\<close> is a parameter
  of the model: a record of what those four calls do. \<open>crMethod\<close> is the result of
  \<open>Method()\<close> (Inl holds the message of its error); \<open>crReadRequest\<close> decodes the
  request into the fresh argument value; \<open>crWriteResponse\<close> and \<open>crWriteError\<close> are
  \<open>Responser.WriteResponse\<close> and \<open>Responser.WriteError\<close>.
\<close>

datatype responder = serverResponseXML | serverResponseJSON

record 'v codecRequest =
  crMethod :: "string + string"
  crReadRequest :: "'v \<Rightarrow> error + 'v"
  crWriteResponse :: "responseWriter \<Rightarrow> 'v \<Rightarrow> responseWriter"
  crWriteError :: "responseWriter \<Rightarrow> nat \<Rightarrow> error \<Rightarrow> responseWriter"

subsection \<open>ServeHTTP and ApiHandler\<close>

text \<open>
  ServeHTTP. \<open>reflectNew t\<close> is the fresh zero value \<open>reflect.New(t)\<close> points to;
  \<open>newRequest\<close> is \<open>codec.NewRequest\<close>.
\<close>

definition ServeHTTP ::
  "(rtype \<Rightarrow> 'v) \<Rightarrow> (request \<Rightarrow> responder \<Rightarrow> 'v codecRequest) \<Rightarrow> 'v serviceMap
    \<Rightarrow> responseWriter \<Rightarrow> request \<Rightarrow> responseWriter" where
  "ServeHTTP reflectNew newRequest s w r =
     (if reqMethod r \<noteq> ''POST'' \<and> reqMethod r \<noteq> ''GET''
      then WritePureError w 405 (''api: POST or GET method required, received '' @ reqMethod r)
      else
        let selectedCodec =
              (if HasSuffix (queryFormat r) ''xml'' then serverResponseXML
               else serverResponseJSON);
            codecReq = newRequest r selectedCodec
        in
        (case crMethod codecReq of
           Inl errMethod \<Rightarrow> WritePureError w 400 errMethod
         | Inr mth \<Rightarrow>
            (case get s mth of
               Inl errGet \<Rightarrow> crWriteError codecReq w 400 errGet
             | Inr (serviceSpec, methodSpec) \<Rightarrow>
                (case crReadRequest codecReq (reflectNew (argsType methodSpec)) of
                   Inl errRead \<Rightarrow> crWriteError codecReq w 400 errRead
                 | Inr args \<Rightarrow>
                    let (reply, errResult) =
                          mFunc (smMethod methodSpec) r args (reflectNew (replyType methodSpec));
                        w1 = HeaderSet w ''x-content-type-options'' ''nosniff''
                    in
                    (case errResult of
                       None \<Rightarrow> crWriteResponse codecReq w1 reply
                     | Some e \<Rightarrow> crWriteError codecReq w1 400 e)))))"

text \<open>
  ApiHandler, with \<open>server\<close> the registry of the global Server. It reads the context
  value "method" with a type assertion, which panics when the context has no such
  string: the result None.
\<close>

definition ApiHandler ::
  "(string \<Rightarrow> string) \<Rightarrow> (rtype \<Rightarrow> 'v) \<Rightarrow> (request \<Rightarrow> responder \<Rightarrow> 'v codecRequest)
    \<Rightarrow> 'v serviceMap \<Rightarrow> responseWriter \<Rightarrow> request \<Rightarrow> responseWriter option" where
  "ApiHandler titleNonASCII reflectNew newRequest server w r =
     (case ctx r ''method'' of
        None \<Rightarrow> None
      | Some ident \<Rightarrow>
         if Contains ident (CHR ''.'') \<noteq> True
         then Some (WritePureError w 404 (''api: Method not found: '' @ ident))
         else
           let partsMethod = SplitN ident (CHR ''.'') 2 in
           if length partsMethod < 2
           then Some (WritePureError w 404 (''api: Method not found: '' @ ident))
           else
             let partsMethod1 = partsMethod[1 := Title titleNonASCII (partsMethod ! 1)];
                 mth = Join partsMethod1 ''.'';
                 r1 = r\<lparr>ctx := (ctx r)(''method'' \<mapsto> mth)\<rparr>
             in
             if HasMethod server mth = False
             then Some (WritePureError w 404 (''api: Method not found: '' @ mth))
             else Some (ServeHTTP reflectNew newRequest server w r1))"

section \<open>The specification's words, for comparison with the code\<close>

text \<open>
  The calling convention of a remote-callable method as the specification words it:
  the method is exported; after the receiver it takes exactly three arguments, a
  pointer to http.Request, a pointer to an exported-or-builtin argument type and a
  pointer to an exported-or-builtin reply type; it has exactly one result, of type
  error.
\<close>

definition pointerTo :: "(rtype \<Rightarrow> bool) \<Rightarrow> rtype \<Rightarrow> bool" where
  "pointerTo P t = (case Elem t of None \<Rightarrow> False | Some e \<Rightarrow> P e)"

definition qualifies :: "(nat \<Rightarrow> bool) \<Rightarrow> 'v rmethod \<Rightarrow> bool" where
  "qualifies upperTab m =
     (mPkgPath m = []
      \<and> length (mIn m) = 4
      \<and> pointerTo (\<lambda>t. t = typeOfRequest) (mIn m ! 1)
      \<and> pointerTo (isExportedOrBuiltin upperTab) (mIn m ! 2)
      \<and> pointerTo (isExportedOrBuiltin upperTab) (mIn m ! 3)
      \<and> mOut m = [typeOfError])"

text \<open>
  The identifier the specification says is looked up: the requested identifier with
  the portion after its first dot title-cased, the portion before it and the dot
  unchanged.
\<close>

definition titleCased :: "(string \<Rightarrow> string) \<Rightarrow> string \<Rightarrow> string" where
  "titleCased titleNonASCII ident =
     takeWhile (\<lambda>c. c \<noteq> CHR ''.'') ident @ ''.''
       @ Title titleNonASCII (tl (dropWhile (\<lambda>c. c \<noteq> CHR ''.'') ident))"

text \<open>The number of dots of an identifier.\<close>

definition dots :: "string \<Rightarrow> nat" where
  "dots s = length (filter (\<lambda>c. c = CHR ''.'') s)"

text \<open>A run of registration attempts, each on the registry the one before left.\<close>

fun registerAll ::
  "(nat \<Rightarrow> bool) \<Rightarrow> 'v serviceMap \<Rightarrow> ('v receiver option \<times> string) list \<Rightarrow> 'v serviceMap" where
  "registerAll upperTab m [] = m"
| "registerAll upperTab m ((rcvr, nm) # rest) =
     registerAll upperTab (snd (register upperTab m rcvr nm)) rest"

section \<open>Sample inputs\<close>

text \<open>
  A table of upper-case letters with no entry beyond Latin-1, a service \<open>Foo\<close> whose
  receiver is a pointer to a struct of package main, with an exported method Echo of
  the calling convention (it copies its argument into the reply), an exported method
  Fail of the calling convention (it fills the reply and returns an error), an
  exported method Close with no arguments, and a codec that reads the method name from
  the request's context.
\<close>

definition noUpper :: "nat \<Rightarrow> bool" where
  "noUpper r = False"

definition noTitle :: "string \<Rightarrow> string" where
  "noTitle s = s"

definition fooType :: rtype where
  "fooType = TPtr [] [] (TOther Struct ''Foo'' ''main'')"

definition conventionIn :: "rtype list" where
  "conventionIn =
     [fooType, TPtr [] [] typeOfRequest,
      TPtr [] [] (TOther Struct ''Args'' ''main''), TPtr [] [] (TOther String ''string'' [])]"

definition echoMethod :: "string rmethod" where
  "echoMethod =
     \<lparr>mName = ''Echo'', mPkgPath = [], mIn = conventionIn, mOut = [typeOfError],
      mFunc = (\<lambda>r a rep. (a, None))\<rparr>"

definition failMethod :: "string rmethod" where
  "failMethod =
     \<lparr>mName = ''Fail'', mPkgPath = [], mIn = conventionIn, mOut = [typeOfError],
      mFunc = (\<lambda>r a rep. (''partial'', Some (Foreign ''boom'')))\<rparr>"

definition closeMethod :: "string rmethod" where
  "closeMethod =
     \<lparr>mName = ''Close'', mPkgPath = [], mIn = [fooType], mOut = [typeOfError],
      mFunc = (\<lambda>r a rep. (rep, None))\<rparr>"

definition fooRcvr :: "string receiver" where
  "fooRcvr =
     \<lparr>rcvrType = fooType, rcvrIsNil = False,
      rcvrMethods = [closeMethod, echoMethod, failMethod]\<rparr>"

definition closeOnlyRcvr :: "string receiver" where
  "closeOnlyRcvr = \<lparr>rcvrType = fooType, rcvrIsNil = False, rcvrMethods = [closeMethod]\<rparr>"


definition emptyRegistry :: "string serviceMap" where
  "emptyRegistry = \<lparr>services = None\<rparr>"

definition fooRegistry :: "string serviceMap" where
  "fooRegistry = snd (register noUpper emptyRegistry (Some fooRcvr) [])"

definition freshWriter :: responseWriter where
  "freshWriter =
     \<lparr>header = Map.empty, wroteHeader = False, status = 0, sentHeader = Map.empty, body = []\<rparr>"

definition sampleNew :: "rtype \<Rightarrow> string" where
  "sampleNew t = []"

definition sampleCodec :: "request \<Rightarrow> responder \<Rightarrow> string codecRequest" where
  "sampleCodec r sel =
     \<lparr>crMethod = (case ctx r ''method'' of None \<Rightarrow> Inl ''no method'' | Some m \<Rightarrow> Inr m),
      crReadRequest = (\<lambda>z. Inr ''x''),
      crWriteResponse = (\<lambda>w v. Write w v),
      crWriteError = (\<lambda>w st e. Write (WriteHeader w st) (case e of Foreign msg \<Rightarrow> msg | _ \<Rightarrow> ''error''))\<rparr>"

definition sampleRequest :: "string \<Rightarrow> string \<Rightarrow> request" where
  "sampleRequest verb ident =
     \<lparr>reqMethod = verb, queryFormat = [], ctx = [''method'' \<mapsto> ident]\<rparr>"

section \<open>Registration: the methods loop\<close>

lemma isExportedOrBuiltin_pointer:
  "Kind t = Ptr \<Longrightarrow> isExportedOrBuiltin upperTab t = pointerTo (isExportedOrBuiltin upperTab) t"
  by (cases t) (simp_all add: pointerTo_def)

lemma pointerTo_Kind: "pointerTo P t \<Longrightarrow> Kind t = Ptr"
  by (cases t) (simp_all add: pointerTo_def)

lemma pointer_to_request:
  "(Kind t = Ptr \<and> Elem t = Some typeOfRequest) = pointerTo (\<lambda>u. u = typeOfRequest) t"
  by (cases t) (auto simp: pointerTo_def)

lemma one_result_error:
  "(length outs = 1 \<and> outs ! 0 = typeOfError) = (outs = [typeOfError])"
  by (cases outs) auto

lemma setupMethod_skips:
  "\<not> qualifies upperTab m \<Longrightarrow> setupMethod upperTab ms m = ms"
  unfolding setupMethod_def qualifies_def Let_def
  using one_result_error [of "mOut m"] pointer_to_request [of "mIn m ! 1"]
    isExportedOrBuiltin_pointer [of "mIn m ! 2" upperTab]
    isExportedOrBuiltin_pointer [of "mIn m ! 3" upperTab]
    pointerTo_Kind [of "isExportedOrBuiltin upperTab" "mIn m ! 2"]
    pointerTo_Kind [of "isExportedOrBuiltin upperTab" "mIn m ! 3"]
  by (auto split: option.splits)

lemma setupMethod_stores:
  assumes "qualifies upperTab m"
  shows "\<exists>a rp. Elem (mIn m ! 2) = Some a \<and> Elem (mIn m ! 3) = Some rp
           \<and> setupMethod upperTab ms m =
               AList.update (mName m) \<lparr>smMethod = m, argsType = a, replyType = rp\<rparr> ms"
proof -
  from assms obtain a rp where e: "Elem (mIn m ! 2) = Some a" "Elem (mIn m ! 3) = Some rp"
    by (auto simp: qualifies_def pointerTo_def split: option.splits)
  from assms have k: "Kind (mIn m ! 2) = Ptr" "Kind (mIn m ! 3) = Ptr"
    by (auto simp: qualifies_def dest: pointerTo_Kind)
  from assms k e have "setupMethod upperTab ms m =
      AList.update (mName m) \<lparr>smMethod = m, argsType = a, replyType = rp\<rparr> ms"
    using pointer_to_request [of "mIn m ! 1"]
      isExportedOrBuiltin_pointer [of "mIn m ! 2" upperTab]
      isExportedOrBuiltin_pointer [of "mIn m ! 3" upperTab]
    by (simp add: setupMethod_def qualifies_def Let_def)
  with e show ?thesis by blast
qed


lemma setupMethod_cases:
  "(\<not> qualifies upperTab m \<and> setupMethod upperTab ms m = ms)
   \<or> (qualifies upperTab m \<and> (\<exists>a rp. Elem (mIn m ! 2) = Some a \<and> Elem (mIn m ! 3) = Some rp
         \<and> setupMethod upperTab ms m =
               AList.update (mName m) \<lparr>smMethod = m, argsType = a, replyType = rp\<rparr> ms))"
  using setupMethod_skips [of upperTab m ms] setupMethod_stores [of upperTab m ms] by blast

lemma setupMethod_empty:
  "(setupMethod upperTab acc m = []) = (acc = [] \<and> \<not> qualifies upperTab m)"
proof (cases "qualifies upperTab m")
  case True
  from setupMethod_stores [OF True, of acc]
  obtain v where "setupMethod upperTab acc m = AList.update (mName m) v acc" by blast
  moreover have "AList.update (mName m) v acc \<noteq> []" by (cases acc) auto
  ultimately show ?thesis using True by simp
next
  case False
  then show ?thesis by (simp add: setupMethod_skips)
qed

lemma methods_loop_empty:
  "(foldl (setupMethod upperTab) acc ms = []) = (acc = [] \<and> (\<forall>m\<in>set ms. \<not> qualifies upperTab m))"
  by (induction ms arbitrary: acc) (auto simp: setupMethod_empty)




lemma methods_loop_filter:
  "foldl (setupMethod upperTab) acc (filter (qualifies upperTab) ms)
     = foldl (setupMethod upperTab) acc ms"
  by (induction ms arbitrary: acc) (auto simp: setupMethod_skips)



lemma methods_loop_keeps:
  "map_of acc n \<noteq> None \<Longrightarrow> map_of (foldl (setupMethod upperTab) acc ms) n \<noteq> None"
proof (induction ms arbitrary: acc)
  case Nil
  then show ?case by simp
next
  case (Cons x ms)
  from setupMethod_cases [of upperTab x acc] Cons.prems
  have "map_of (setupMethod upperTab acc x) n \<noteq> None"
    by (auto simp: update_conv')
  from Cons.IH [OF this] show ?case by simp
qed

lemma methods_loop_present:
  "m \<in> set ms \<Longrightarrow> qualifies upperTab m \<Longrightarrow>
     map_of (foldl (setupMethod upperTab) acc ms) (mName m) \<noteq> None"
proof (induction ms arbitrary: acc)
  case Nil
  then show ?case by simp
next
  case (Cons x ms)
  show ?case
  proof (cases "m = x")
    case True
    from setupMethod_stores [OF Cons.prems(2), of acc] True
    have "map_of (setupMethod upperTab acc x) (mName m) \<noteq> None"
      by (auto simp: update_conv')
    from methods_loop_keeps [OF this] show ?thesis by simp
  next
    case False
    with Cons.prems have "m \<in> set ms" by simp
    from Cons.IH [OF this Cons.prems(2)] show ?thesis by simp
  qed
qed

lemma setupMethods_empty:
  "(setupMethods upperTab ms = []) = (\<forall>m\<in>set ms. \<not> qualifies upperTab m)"
  by (simp add: setupMethods_def methods_loop_empty)

lemma setupMethods_filter:
  "setupMethods upperTab (filter (qualifies upperTab) ms) = setupMethods upperTab ms"
  by (simp add: setupMethods_def methods_loop_filter)


lemma lookupService_stored:
  "lookupService (m\<lparr>services := Some (AList.update k v al)\<rparr>) n
     = (if n = k then Some v else map_of al n)"
  by (simp add: lookupService_def update_conv')

text \<open>What register does, by the outcome of its three parts.\<close>

lemma register_outcome:
  "register upperTab m rcvr nm =
     (case setupService upperTab rcvr nm of
        Inl e \<Rightarrow> (Some e, m)
      | Inr sname \<Rightarrow>
         (case rcvr of
            None \<Rightarrow> (Some (Panic ''invalid memory address or nil pointer dereference''), m)
          | Some rc \<Rightarrow>
             if \<forall>mt\<in>set (rcvrMethods rc). \<not> qualifies upperTab mt
             then (Some (NoSuitableMethods sname), m)
             else
               (case lookupService m sname of
                  Some old \<Rightarrow> (Some (AlreadyDefined sname), m)
                | None \<Rightarrow>
                   (None, m\<lparr>services := Some (AList.update sname
                       \<lparr>sName = sname, sRcvr = rc, sMethods = setupMethods upperTab (rcvrMethods rc)\<rparr>
                       (case services m of None \<Rightarrow> [] | Some mp \<Rightarrow> mp))\<rparr>))))"
  by (simp add: register_def Let_def lookupService_def setupMethods_empty
           split: sum.splits option.splits)

section \<open>Registration: the service name\<close>

lemma isExported_empty: "\<not> isExported upperTab []"
  by (simp add: isExported_def IsUpper_def RuneError_def)

lemma indirectTypeName_not_NoServiceName:
  "indirectTypeName rcvr \<noteq> Inl (NoServiceName x)"
  by (auto simp: indirectTypeName_def split: option.splits rtype.splits)

lemma setupService_name_nonempty:
  "setupService upperTab rcvr nm = Inr sname \<Longrightarrow> sname \<noteq> []"
  by (auto simp: setupService_def split: if_splits sum.splits)

lemma setupService_never_NoServiceName:
  "setupService upperTab rcvr nm \<noteq> Inl (NoServiceName x)"
proof (cases "nm = []")
  case False
  then show ?thesis by (simp add: setupService_def)
next
  case True
  show ?thesis
  proof (cases "indirectTypeName rcvr")
    case (Inl p)
    with True indirectTypeName_not_NoServiceName [of rcvr x] show ?thesis
      by (simp add: setupService_def)
  next
    case (Inr derived)
    with True isExported_empty [of upperTab] show ?thesis
      by (cases "derived = []") (auto simp: setupService_def)
  qed
qed

text \<open>
  C10: register never returns the "no service name for type" error. With an empty name
  argument the derived type name is first tested by isExported, which is false on the
  empty string, so an empty derived name is answered with "type is not exported"; a
  non-empty name argument is the service name as it is. This holds for every receiver,
  every name, every registry and every table of upper-case letters.
\<close>

theorem register_never_NoServiceName:
  "fst (register upperTab m rcvr nm) \<noteq> Some (NoServiceName x)"
  by (cases "setupService upperTab rcvr nm")
     (auto simp: register_def Let_def setupService_never_NoServiceName
           split: option.splits)

text \<open>
  A receiver whose type has no name (a function value, say) and no name argument: the
  derived name is empty, and the answer is "type is not exported".
\<close>

lemma register_unnamed_type_sample:
  "register noUpper emptyRegistry
     (Some \<lparr>rcvrType = TOther Func [] [], rcvrIsNil = False, rcvrMethods = []\<rparr>) []
   = (Some (NotExported []), emptyRegistry)"
  by (simp add: register_def setupService_def indirectTypeName_def isExported_empty)

section \<open>Registration: which methods are stored\<close>



text \<open>The sample inputs, evaluated.\<close>

lemmas sample_defs =
  noUpper_def noTitle_def fooType_def conventionIn_def echoMethod_def failMethod_def
  closeMethod_def fooRcvr_def closeOnlyRcvr_def emptyRegistry_def freshWriter_def
  sampleNew_def sampleCodec_def sampleRequest_def

lemmas library_defs =
  byte_def Contains_def HasSuffix_def isSeparator_def ToTitle_def Title_def RuneError_def
  IsUpper_def typeOfError_def typeOfRequest_def isExported_def pointerTo_def char_of_eq_iff

lemma sample_qualifies:
  "qualifies noUpper echoMethod" "qualifies noUpper failMethod" "\<not> qualifies noUpper closeMethod"
  by (simp_all add: qualifies_def sample_defs library_defs)

lemma sample_setupService:
  "setupService noUpper (Some fooRcvr) [] = Inr ''Foo''"
  "setupService noUpper (Some closeOnlyRcvr) [] = Inr ''Foo''"
  by (simp_all add: setupService_def indirectTypeName_def sample_defs library_defs)

lemma sample_register_ok:
  "fst (register noUpper emptyRegistry (Some fooRcvr) []) = None"
  using sample_qualifies(1)
  by (simp add: register_outcome sample_setupService)
     (auto simp: fooRcvr_def emptyRegistry_def lookupService_def)



section \<open>Registration: all or nothing\<close>

lemma lookupService_stored_other:
  "n \<noteq> k \<Longrightarrow>
     lookupService (m\<lparr>services := Some (AList.update k v
        (case services m of None \<Rightarrow> [] | Some mp \<Rightarrow> mp))\<rparr>) n = lookupService m n"
  by (simp add: lookupService_def update_conv' split: option.splits)


lemma sample_fooRegistry:
  "fooRegistry = \<lparr>services = Some [(''Foo'',
      \<lparr>sName = ''Foo'', sRcvr = fooRcvr, sMethods = setupMethods noUpper (rcvrMethods fooRcvr)\<rparr>)]\<rparr>"
  using sample_qualifies(1)
  by (simp add: fooRegistry_def register_outcome sample_setupService)
     (auto simp: fooRcvr_def emptyRegistry_def lookupService_def)



section \<open>Lookup: ill-formed keys\<close>

lemma Split_not_Nil: "Split s sep \<noteq> []"
  by (induction s) (auto split: list.splits)

lemma length_Split: "length (Split s sep) = Suc (length (filter (\<lambda>c. c = sep) s))"
proof (induction s)
  case Nil
  then show ?case by simp
next
  case (Cons c cs)
  then show ?case
    using Split_not_Nil [of cs sep] by (cases "Split cs sep") auto
qed

lemma get_IllFormed_iff:
  "(\<exists>x. get m mth = Inl (IllFormed x)) = (length (Split mth (CHR ''.'')) \<noteq> 2)"
  by (auto simp: get_def Let_def split: option.splits)

text \<open>
  C3, as the code has it: get returns the "ill-formed" error exactly when splitting the
  string on dots does not yield exactly two parts, that is, when the string does not
  hold exactly one dot; the parts may be empty. A key with one dot and an empty
  segment is therefore not ill-formed: get looks both segments up and reports an
  unknown service or an unknown method (or the entry registered under those names).
\<close>

theorem get_ill_formed_iff_not_two_parts:
  "((get m mth = Inl (IllFormed mth)) = (length (Split mth (CHR ''.'')) \<noteq> 2))
   \<and> ((\<exists>x. get m mth = Inl (IllFormed x)) = (dots mth \<noteq> 1))
   \<and> (dots mth = 1 \<longrightarrow>
        get m mth = Inl (CantFindService mth) \<or> get m mth = Inl (CantFindMethod mth)
        \<or> (\<exists>found. get m mth = Inr found))"
proof (intro conjI impI)
  show "(get m mth = Inl (IllFormed mth)) = (length (Split mth (CHR ''.'')) \<noteq> 2)"
    by (auto simp: get_def Let_def split: option.splits)
  show "(\<exists>x. get m mth = Inl (IllFormed x)) = (dots mth \<noteq> 1)"
    by (simp add: get_IllFormed_iff length_Split dots_def)
  assume "dots mth = 1"
  then have "length (Split mth (CHR ''.'')) = 2"
    by (simp add: length_Split dots_def)
  then show "get m mth = Inl (CantFindService mth) \<or> get m mth = Inl (CantFindMethod mth)
        \<or> (\<exists>found. get m mth = Inr found)"
    by (auto simp: get_def Let_def split: option.splits)
qed

lemma sample_methods:
  "setupMethods noUpper (rcvrMethods fooRcvr) =
     [(''Echo'', \<lparr>smMethod = echoMethod, argsType = TOther Struct ''Args'' ''main'',
                  replyType = TOther String ''string'' []\<rparr>),
      (''Fail'', \<lparr>smMethod = failMethod, argsType = TOther Struct ''Args'' ''main'',
                  replyType = TOther String ''string'' []\<rparr>)]"
  by (simp add: setupMethods_def setupMethod_def Let_def sample_defs library_defs)

lemma sample_get_empty_segment:
  "get fooRegistry ''Foo.'' = Inl (CantFindMethod ''Foo.'')"
  "get fooRegistry ''.Echo'' = Inl (CantFindService ''.Echo'')"
  by (simp_all add: get_def sample_fooRegistry lookupService_def sample_methods)

theorem get_ill_formed_iff_not_two_parts_witness:
  "dots ''Foo.'' = 1 \<and> get fooRegistry ''Foo.'' = Inl (CantFindMethod ''Foo.'')
   \<and> get fooRegistry ''Foo.'' \<noteq> Inl (IllFormed ''Foo.'')
   \<and> dots ''Foo.Bar.Baz'' = 2
   \<and> get fooRegistry ''Foo.Bar.Baz'' = Inl (IllFormed ''Foo.Bar.Baz'')"
proof -
  have d: "dots ''Foo.'' = 1" "dots ''Foo.Bar.Baz'' = 2" by (simp_all add: dots_def)
  have two: "length (Split ''Foo.'' (CHR ''.'')) = 2" "length (Split ''Foo.Bar.Baz'' (CHR ''.'')) \<noteq> 2"
    by simp_all
  from get_ill_formed_iff_not_two_parts [of fooRegistry "''Foo.''"] two(1)
  have a: "get fooRegistry ''Foo.'' \<noteq> Inl (IllFormed ''Foo.'')" by blast
  from get_ill_formed_iff_not_two_parts [of fooRegistry "''Foo.Bar.Baz''"] two(2)
  have b: "get fooRegistry ''Foo.Bar.Baz'' = Inl (IllFormed ''Foo.Bar.Baz'')" by blast
  from d a b sample_get_empty_segment(1) show ?thesis by blast
qed

text \<open>
  C3 as the specification words it fails on "Foo." and ".Echo" in a registry that holds
  the service Foo: neither is answered as ill-formed.
\<close>

theorem get_empty_segment_counterexample:
  "get fooRegistry ''Foo.'' = Inl (CantFindMethod ''Foo.'')
   \<and> get fooRegistry ''.Echo'' = Inl (CantFindService ''.Echo'')
   \<and> Split ''Foo.'' (CHR ''.'') = [''Foo'', []]
   \<and> Split ''.Echo'' (CHR ''.'') = [[], ''Echo'']"
  using sample_get_empty_segment by simp

section \<open>ApiHandler: the identifier that is looked up\<close>

lemma SplitN_first_dot:
  "sep \<in> set s \<Longrightarrow>
     SplitN s sep 2 = [takeWhile (\<lambda>c. c \<noteq> sep) s, tl (dropWhile (\<lambda>c. c \<noteq> sep) s)]"
  by (simp add: numeral_2_eq_2)

lemma ApiHandler_no_dot:
  assumes "ctx r ''method'' = Some ident" and "CHR ''.'' \<notin> set ident"
  shows "ApiHandler titleNonASCII reflectNew newRequest server w r
           = Some (WritePureError w 404 (''api: Method not found: '' @ ident))"
  using assms by (simp add: ApiHandler_def Contains_def)

lemma ApiHandler_dotted:
  assumes "ctx r ''method'' = Some ident" and "CHR ''.'' \<in> set ident"
  shows "ApiHandler titleNonASCII reflectNew newRequest server w r
           = Some (if HasMethod server (titleCased titleNonASCII ident)
                   then ServeHTTP reflectNew newRequest server w
                          (r\<lparr>ctx := (ctx r)(''method'' \<mapsto> titleCased titleNonASCII ident)\<rparr>)
                   else WritePureError w 404
                          (''api: Method not found: '' @ titleCased titleNonASCII ident))"
  using assms
  by (simp add: ApiHandler_def Contains_def SplitN_first_dot titleCased_def Let_def)

lemma titleCased_split:
  "CHR ''.'' \<notin> set pre \<Longrightarrow>
     titleCased titleNonASCII (pre @ ''.'' @ post) = pre @ ''.'' @ Title titleNonASCII post"
proof -
  assume "CHR ''.'' \<notin> set pre"
  then have pre: "\<forall>c\<in>set pre. c \<noteq> CHR ''.''" by auto
  then show ?thesis by (simp add: titleCased_def)
qed

lemma HasMethod_iff_get: "HasMethod s mth = (\<exists>found. get s mth = Inr found)"
  by (simp add: HasMethod_def split: sum.splits)

lemma HasMethod_two_parts: "HasMethod s mth \<Longrightarrow> length (Split mth (CHR ''.'')) = 2"
  by (auto simp: HasMethod_def get_def Let_def split: sum.splits if_splits)

lemma WritePureError_fresh:
  "\<not> wroteHeader w \<Longrightarrow>
     status (WritePureError w st msg) = st \<and> wroteHeader (WritePureError w st msg)
     \<and> body (WritePureError w st msg) = body w @ msg
     \<and> sentHeader (WritePureError w st msg) = header w"
  by (simp add: WritePureError_def Write_def WriteHeader_def HeaderSet_def)

lemma sample_titles:
  "titleCased titleNonASCII ''Foo.bar'' = ''Foo.Bar''"
  "titleCased titleNonASCII ''Foo.Bar.Baz'' = ''Foo.Bar.Baz''"
  "titleCased titleNonASCII ''Foo.echo'' = ''Foo.Echo''"
  "titleCased titleNonASCII ''Foo.fail'' = ''Foo.Fail''"
  "titleCased titleNonASCII ''Foo.Missing'' = ''Foo.Missing''"
  by (simp_all add: titleCased_def library_defs)

text \<open>
  C4: for a requested identifier with at least one dot, ApiHandler resolves against the
  registry the identifier whose portion after the first dot is title-cased and whose
  portion before it is unchanged, and hands ServeHTTP the request with that identifier
  in its context; "Foo.bar" is looked up as "Foo.Bar". An identifier with no dot fails
  with "Method not found", and so does one whose title-cased form does not split into
  exactly two parts, such as "Foo.Bar.Baz".
\<close>

theorem ApiHandler_title_cases_after_first_dot:
  assumes ident: "ctx r ''method'' = Some ident"
  shows
    "(CHR ''.'' \<in> set ident \<longrightarrow>
        ApiHandler titleNonASCII reflectNew newRequest server w r
          = Some (if HasMethod server (titleCased titleNonASCII ident)
                  then ServeHTTP reflectNew newRequest server w
                         (r\<lparr>ctx := (ctx r)(''method'' \<mapsto> titleCased titleNonASCII ident)\<rparr>)
                  else WritePureError w 404
                         (''api: Method not found: '' @ titleCased titleNonASCII ident)))
     \<and> (\<forall>pre post. CHR ''.'' \<notin> set pre \<longrightarrow>
           titleCased titleNonASCII (pre @ ''.'' @ post) = pre @ ''.'' @ Title titleNonASCII post)
     \<and> titleCased titleNonASCII ''Foo.bar'' = ''Foo.Bar''
     \<and> (CHR ''.'' \<notin> set ident \<longrightarrow>
           ApiHandler titleNonASCII reflectNew newRequest server w r
             = Some (WritePureError w 404 (''api: Method not found: '' @ ident)))
     \<and> (CHR ''.'' \<in> set ident
          \<and> length (Split (titleCased titleNonASCII ident) (CHR ''.'')) \<noteq> 2 \<longrightarrow>
           ApiHandler titleNonASCII reflectNew newRequest server w r
             = Some (WritePureError w 404
                       (''api: Method not found: '' @ titleCased titleNonASCII ident)))
     \<and> titleCased titleNonASCII ''Foo.Bar.Baz'' = ''Foo.Bar.Baz''
     \<and> length (Split ''Foo.Bar.Baz'' (CHR ''.'')) = 3"
proof (intro conjI allI impI)
  assume "CHR ''.'' \<in> set ident"
  with ident show "ApiHandler titleNonASCII reflectNew newRequest server w r
          = Some (if HasMethod server (titleCased titleNonASCII ident)
                  then ServeHTTP reflectNew newRequest server w
                         (r\<lparr>ctx := (ctx r)(''method'' \<mapsto> titleCased titleNonASCII ident)\<rparr>)
                  else WritePureError w 404
                         (''api: Method not found: '' @ titleCased titleNonASCII ident))"
    by (rule ApiHandler_dotted)
next
  fix pre post :: string
  assume "CHR ''.'' \<notin> set pre"
  then show "titleCased titleNonASCII (pre @ ''.'' @ post) = pre @ ''.'' @ Title titleNonASCII post"
    by (rule titleCased_split)
next
  show "titleCased titleNonASCII ''Foo.bar'' = ''Foo.Bar''" by (rule sample_titles)
next
  assume "CHR ''.'' \<notin> set ident"
  with ident show "ApiHandler titleNonASCII reflectNew newRequest server w r
             = Some (WritePureError w 404 (''api: Method not found: '' @ ident))"
    by (rule ApiHandler_no_dot)
next
  assume a: "CHR ''.'' \<in> set ident
          \<and> length (Split (titleCased titleNonASCII ident) (CHR ''.'')) \<noteq> 2"
  then have "\<not> HasMethod server (titleCased titleNonASCII ident)"
    using HasMethod_two_parts by blast
  with a ApiHandler_dotted [OF ident, of titleNonASCII reflectNew newRequest server w]
  show "ApiHandler titleNonASCII reflectNew newRequest server w r
             = Some (WritePureError w 404
                       (''api: Method not found: '' @ titleCased titleNonASCII ident))"
    by simp
next
  show "titleCased titleNonASCII ''Foo.Bar.Baz'' = ''Foo.Bar.Baz''" by (rule sample_titles)
next
  show "length (Split ''Foo.Bar.Baz'' (CHR ''.'')) = 3" by simp
qed


lemma sample_HasMethod:
  "HasMethod fooRegistry ''Foo.Echo''" "HasMethod fooRegistry ''Foo.Fail''"
  "\<not> HasMethod fooRegistry ''Foo.Missing''" "\<not> HasMethod fooRegistry ''Foo.Bar''"
  by (simp_all add: HasMethod_def get_def sample_fooRegistry lookupService_def sample_methods)

lemma sample_ctx:
  "ctx (sampleRequest verb ident) ''method'' = Some ident"
  "(sampleRequest verb ident)\<lparr>ctx := (ctx (sampleRequest verb ident))(''method'' \<mapsto> ident2)\<rparr>
     = sampleRequest verb ident2"
  by (simp_all add: sampleRequest_def)

theorem ApiHandler_title_cases_after_first_dot_witness:
  "ctx (sampleRequest ''GET'' ''Foo.echo'') ''method'' = Some ''Foo.echo''
   \<and> ApiHandler noTitle sampleNew sampleCodec fooRegistry freshWriter (sampleRequest ''GET'' ''Foo.echo'')
       = Some (ServeHTTP sampleNew sampleCodec fooRegistry freshWriter (sampleRequest ''GET'' ''Foo.Echo''))
   \<and> ApiHandler noTitle sampleNew sampleCodec fooRegistry freshWriter (sampleRequest ''GET'' ''Foo.bar'')
       = Some (WritePureError freshWriter 404 ''api: Method not found: Foo.Bar'')
   \<and> ApiHandler noTitle sampleNew sampleCodec fooRegistry freshWriter (sampleRequest ''GET'' ''Foo'')
       = Some (WritePureError freshWriter 404 ''api: Method not found: Foo'')
   \<and> ApiHandler noTitle sampleNew sampleCodec fooRegistry freshWriter
         (sampleRequest ''GET'' ''Foo.Bar.Baz'')
       = Some (WritePureError freshWriter 404 ''api: Method not found: Foo.Bar.Baz'')"
proof -
  note t = ApiHandler_title_cases_after_first_dot
    [where titleNonASCII = noTitle and reflectNew = sampleNew and newRequest = sampleCodec
       and server = fooRegistry and w = freshWriter]
  have dot: "CHR ''.'' \<in> set ''Foo.echo''" "CHR ''.'' \<in> set ''Foo.bar''"
    "CHR ''.'' \<notin> set ''Foo''" "CHR ''.'' \<in> set ''Foo.Bar.Baz''"
    by simp_all
  from t [where r = "sampleRequest ''GET'' ''Foo.echo''" and ident = "''Foo.echo''", OF sample_ctx(1)] dot(1) sample_HasMethod(1)
  have a: "ApiHandler noTitle sampleNew sampleCodec fooRegistry freshWriter
             (sampleRequest ''GET'' ''Foo.echo'')
       = Some (ServeHTTP sampleNew sampleCodec fooRegistry freshWriter (sampleRequest ''GET'' ''Foo.Echo''))"
    by (simp add: sample_titles sample_ctx)
  from t [where r = "sampleRequest ''GET'' ''Foo.bar''" and ident = "''Foo.bar''", OF sample_ctx(1)] dot(2) sample_HasMethod(4)
  have b: "ApiHandler noTitle sampleNew sampleCodec fooRegistry freshWriter
             (sampleRequest ''GET'' ''Foo.bar'')
       = Some (WritePureError freshWriter 404 ''api: Method not found: Foo.Bar'')"
    by (simp add: sample_titles)
  from t [where r = "sampleRequest ''GET'' ''Foo''" and ident = "''Foo''", OF sample_ctx(1)] dot(3)
  have c: "ApiHandler noTitle sampleNew sampleCodec fooRegistry freshWriter
             (sampleRequest ''GET'' ''Foo'')
       = Some (WritePureError freshWriter 404 ''api: Method not found: Foo'')"
    by simp
  have three: "length (Split (titleCased noTitle ''Foo.Bar.Baz'') (CHR ''.'')) \<noteq> 2"
    by (simp add: sample_titles)
  from t [where r = "sampleRequest ''GET'' ''Foo.Bar.Baz''" and ident = "''Foo.Bar.Baz''",
          OF sample_ctx(1)] dot(4) three
  have "ApiHandler noTitle sampleNew sampleCodec fooRegistry freshWriter
             (sampleRequest ''GET'' ''Foo.Bar.Baz'')
       = Some (WritePureError freshWriter 404
                 (''api: Method not found: '' @ titleCased noTitle ''Foo.Bar.Baz''))"
    by blast
  then have d: "ApiHandler noTitle sampleNew sampleCodec fooRegistry freshWriter
             (sampleRequest ''GET'' ''Foo.Bar.Baz'')
       = Some (WritePureError freshWriter 404 ''api: Method not found: Foo.Bar.Baz'')"
    by (simp add: sample_titles)
  from sample_ctx(1) [of "''GET''" "''Foo.echo''"] a b c d show ?thesis by blast
qed

section \<open>ApiHandler: identifiers that do not resolve\<close>

lemma ToTitle_dot: "(char_of (ToTitle (byte c)) = CHR ''.'') = (c = CHR ''.'')"
proof (cases "0x61 \<le> byte c \<and> byte c \<le> 0x7A")
  case True
  then have "c \<noteq> CHR ''.''" by (auto simp: byte_def)
  moreover from True have "char_of (byte c - 0x20) \<noteq> CHR ''.''"
    by (auto simp: char_of_eq_iff take_bit_eq_mod)
  ultimately show ?thesis using True by (simp add: ToTitle_def)
next
  case False
  then show ?thesis by (auto simp: ToTitle_def byte_def)
qed

lemma titleFrom_dots: "dots (titleFrom prev s) = dots s"
  by (induction s arbitrary: prev) (auto simp: dots_def ToTitle_dot)

lemma dots_append: "dots (xs @ ys) = dots xs + dots ys"
  by (simp add: dots_def)

lemma dots_before_first_dot: "dots (takeWhile (\<lambda>c. c \<noteq> CHR ''.'') s) = 0"
  by (induction s) (auto simp: dots_def)

lemma dots_after_first_dot:
  "CHR ''.'' \<in> set s \<Longrightarrow> dots s = Suc (dots (tl (dropWhile (\<lambda>c. c \<noteq> CHR ''.'') s)))"
  by (induction s) (auto simp: dots_def)

lemma ascii_after_first_dot:
  "list_all Q s \<Longrightarrow> list_all Q (tl (dropWhile (\<lambda>c. c \<noteq> CHR ''.'') s))"
  by (induction s) auto

lemma titleCased_dots:
  assumes "CHR ''.'' \<in> set ident" and "list_all (\<lambda>c. byte c < 0x80) ident"
  shows "dots (titleCased titleNonASCII ident) = dots ident"
proof -
  let ?rest = "tl (dropWhile (\<lambda>c. c \<noteq> CHR ''.'') ident)"
  from assms(2) have "list_all (\<lambda>c. byte c < 0x80) ?rest" by (rule ascii_after_first_dot)
  then have "Title titleNonASCII ?rest = titleFrom 0x20 ?rest" by (simp add: Title_def)
  moreover have "dots (''.'' @ titleFrom 0x20 ?rest) = Suc (dots (titleFrom 0x20 ?rest))"
    by (simp add: dots_def)
  ultimately have "dots (titleCased titleNonASCII ident) = Suc (dots ?rest)"
    by (simp only: titleCased_def dots_append dots_before_first_dot titleFrom_dots)
  with dots_after_first_dot [OF assms(1)] show ?thesis by simp
qed

lemma ascii_malformed_unresolved:
  assumes "CHR ''.'' \<in> set ident" and "list_all (\<lambda>c. byte c < 0x80) ident"
    and "dots ident \<noteq> 1"
  shows "get server (titleCased titleNonASCII ident)
           = Inl (IllFormed (titleCased titleNonASCII ident))"
proof -
  from assms have "dots (titleCased titleNonASCII ident) \<noteq> 1"
    by (simp add: titleCased_dots)
  then have "length (Split (titleCased titleNonASCII ident) (CHR ''.'')) \<noteq> 2"
    by (simp add: length_Split dots_def)
  then show ?thesis by (simp add: get_def)
qed

text \<open>
  C5: for every request that ApiHandler handles with a writer nothing was written to
  (GET, POST or any other verb), if the identifier has no dot, or is malformed (an
  ASCII identifier that does not hold exactly one dot), or its title-cased form does
  not resolve to a registered service and method (get returns an error for it, the
  ill-formed error included), the response has status 404 and its body is
  "api: Method not found: " with the identifier; ServeHTTP, the source of the 400 and
  405 answers, is not reached.
\<close>

theorem ApiHandler_unresolved_is_404:
  assumes ident: "ctx r ''method'' = Some ident"
    and fresh: "\<not> wroteHeader w"
    and bad: "CHR ''.'' \<notin> set ident
              \<or> (list_all (\<lambda>c. byte c < 0x80) ident \<and> dots ident \<noteq> 1)
              \<or> (\<exists>e. get server (titleCased titleNonASCII ident) = Inl e)"
  shows
    "\<exists>w1. ApiHandler titleNonASCII reflectNew newRequest server w r = Some w1
       \<and> status w1 = 404
       \<and> body w1 = body w @ ''api: Method not found: ''
                     @ (if CHR ''.'' \<in> set ident then titleCased titleNonASCII ident else ident)
       \<and> w1 = WritePureError w 404 (''api: Method not found: ''
                     @ (if CHR ''.'' \<in> set ident then titleCased titleNonASCII ident else ident))"
proof (cases "CHR ''.'' \<in> set ident")
  case False
  with ApiHandler_no_dot [OF ident False, of titleNonASCII reflectNew newRequest server w]
    WritePureError_fresh [OF fresh]
  show ?thesis by simp
next
  case True
  with bad ascii_malformed_unresolved
    [where server = server and titleNonASCII = titleNonASCII, OF True]
  have "\<exists>e. get server (titleCased titleNonASCII ident) = Inl e"
    by blast
  then have "\<not> HasMethod server (titleCased titleNonASCII ident)"
    by (auto simp: HasMethod_iff_get)
  with True ApiHandler_dotted [OF ident True, of titleNonASCII reflectNew newRequest server w]
    WritePureError_fresh [OF fresh]
  show ?thesis by simp
qed

theorem ApiHandler_unresolved_is_404_witness:
  "ctx (sampleRequest ''POST'' ''Foo.Missing'') ''method'' = Some ''Foo.Missing''
   \<and> \<not> wroteHeader freshWriter
   \<and> get fooRegistry (titleCased noTitle ''Foo.Missing'') = Inl (CantFindMethod ''Foo.Missing'')
   \<and> (\<exists>w1. ApiHandler noTitle sampleNew sampleCodec fooRegistry freshWriter
              (sampleRequest ''POST'' ''Foo.Missing'') = Some w1
          \<and> status w1 = 404 \<and> body w1 = ''api: Method not found: Foo.Missing'')"
proof -
  have g: "get fooRegistry (titleCased noTitle ''Foo.Missing'') = Inl (CantFindMethod ''Foo.Missing'')"
    by (simp add: sample_titles get_def sample_fooRegistry lookupService_def sample_methods)
  have f: "\<not> wroteHeader freshWriter" by (simp add: freshWriter_def)
  have dot: "CHR ''.'' \<in> set ''Foo.Missing''" by simp
  from g have bad: "CHR ''.'' \<notin> set ''Foo.Missing''
      \<or> (list_all (\<lambda>c. byte c < 0x80) ''Foo.Missing'' \<and> dots ''Foo.Missing'' \<noteq> 1)
      \<or> (\<exists>e. get fooRegistry (titleCased noTitle ''Foo.Missing'') = Inl e)"
    by blast
  from ApiHandler_unresolved_is_404
    [where reflectNew = sampleNew and newRequest = sampleCodec
       and r = "sampleRequest ''POST'' ''Foo.Missing''", OF sample_ctx(1) f bad]
  have "\<exists>w1. ApiHandler noTitle sampleNew sampleCodec fooRegistry freshWriter
              (sampleRequest ''POST'' ''Foo.Missing'') = Some w1
          \<and> status w1 = 404 \<and> body w1 = ''api: Method not found: Foo.Missing''"
    by (simp add: sample_titles freshWriter_def)
  with sample_ctx(1) [of "''POST''" "''Foo.Missing''"] f g show ?thesis by blast
qed

section \<open>The verb check\<close>

lemma ServeHTTP_bad_verb:
  "reqMethod r \<noteq> ''POST'' \<Longrightarrow> reqMethod r \<noteq> ''GET'' \<Longrightarrow>
     ServeHTTP reflectNew newRequest s w r
       = WritePureError w 405 (''api: POST or GET method required, received '' @ reqMethod r)"
  by (simp add: ServeHTTP_def)

text \<open>
  C6, as the code has it: ServeHTTP tests the verb before it consults the codec or the
  registry, so a request with a verb other than GET and POST that reaches ServeHTTP is
  answered with status 405 whatever its identifier, the codec and the registry are.
  ApiHandler looks the identifier up before it calls ServeHTTP: a request with such a
  verb that enters through ApiHandler gets the 405 when its title-cased identifier
  resolves.
\<close>

theorem ServeHTTP_other_verb_is_405:
  assumes verb: "reqMethod r \<noteq> ''POST''" "reqMethod r \<noteq> ''GET''"
    and fresh: "\<not> wroteHeader w"
  shows
    "ServeHTTP reflectNew newRequest s w r
       = WritePureError w 405 (''api: POST or GET method required, received '' @ reqMethod r)
     \<and> status (ServeHTTP reflectNew newRequest s w r) = 405
     \<and> (\<forall>ident. ctx r ''method'' = Some ident \<and> CHR ''.'' \<in> set ident
            \<and> HasMethod s (titleCased titleNonASCII ident) \<longrightarrow>
          (\<exists>w1. ApiHandler titleNonASCII reflectNew newRequest s w r = Some w1
                 \<and> status w1 = 405))"
proof (intro conjI allI impI)
  show a: "ServeHTTP reflectNew newRequest s w r
       = WritePureError w 405 (''api: POST or GET method required, received '' @ reqMethod r)"
    using verb by (rule ServeHTTP_bad_verb)
  then show "status (ServeHTTP reflectNew newRequest s w r) = 405"
    using WritePureError_fresh [OF fresh] by simp
  fix ident
  assume h: "ctx r ''method'' = Some ident \<and> CHR ''.'' \<in> set ident
            \<and> HasMethod s (titleCased titleNonASCII ident)"
  let ?r1 = "r\<lparr>ctx := (ctx r)(''method'' \<mapsto> titleCased titleNonASCII ident)\<rparr>"
  from h have "ApiHandler titleNonASCII reflectNew newRequest s w r
      = Some (ServeHTTP reflectNew newRequest s w ?r1)"
    by (simp add: ApiHandler_dotted)
  moreover from verb have "ServeHTTP reflectNew newRequest s w ?r1
      = WritePureError w 405 (''api: POST or GET method required, received '' @ reqMethod ?r1)"
    by (simp add: ServeHTTP_bad_verb)
  ultimately show "\<exists>w1. ApiHandler titleNonASCII reflectNew newRequest s w r = Some w1
                 \<and> status w1 = 405"
    using WritePureError_fresh [OF fresh] by simp
qed

theorem ServeHTTP_other_verb_is_405_witness:
  "reqMethod (sampleRequest ''DELETE'' ''Foo.echo'') \<noteq> ''POST''
   \<and> reqMethod (sampleRequest ''DELETE'' ''Foo.echo'') \<noteq> ''GET''
   \<and> \<not> wroteHeader freshWriter
   \<and> status (ServeHTTP sampleNew sampleCodec emptyRegistry freshWriter
               (sampleRequest ''DELETE'' ''Foo.echo'')) = 405
   \<and> HasMethod fooRegistry (titleCased noTitle ''Foo.echo'')
   \<and> (\<exists>w1. ApiHandler noTitle sampleNew sampleCodec fooRegistry freshWriter
               (sampleRequest ''DELETE'' ''Foo.echo'') = Some w1 \<and> status w1 = 405)"
proof -
  have v: "reqMethod (sampleRequest ''DELETE'' ''Foo.echo'') \<noteq> ''POST''"
    "reqMethod (sampleRequest ''DELETE'' ''Foo.echo'') \<noteq> ''GET''"
    by (simp_all add: sampleRequest_def)
  have f: "\<not> wroteHeader freshWriter" by (simp add: freshWriter_def)
  have h: "HasMethod fooRegistry (titleCased noTitle ''Foo.echo'')"
    by (simp add: sample_titles sample_HasMethod)
  have dot: "CHR ''.'' \<in> set ''Foo.echo''" by simp
  from ServeHTTP_other_verb_is_405
    [where reflectNew = sampleNew and newRequest = sampleCodec and s = emptyRegistry, OF v f]
  have a: "status (ServeHTTP sampleNew sampleCodec emptyRegistry freshWriter
               (sampleRequest ''DELETE'' ''Foo.echo'')) = 405"
    by blast
  from ServeHTTP_other_verb_is_405
    [where reflectNew = sampleNew and newRequest = sampleCodec and s = fooRegistry
       and titleNonASCII = noTitle, OF v f]
    sample_ctx(1) [of "''DELETE''" "''Foo.echo''"] dot h
  have b: "\<exists>w1. ApiHandler noTitle sampleNew sampleCodec fooRegistry freshWriter
               (sampleRequest ''DELETE'' ''Foo.echo'') = Some w1 \<and> status w1 = 405"
    by blast
  from v f a h b show ?thesis by blast
qed

text \<open>
  C6 as the specification words it fails for a request that enters through ApiHandler:
  with the verb DELETE and the unregistered identifier "Foo.Missing" the registry is
  consulted first and the answer is 404.
\<close>

theorem ApiHandler_other_verb_counterexample:
  "reqMethod (sampleRequest ''DELETE'' ''Foo.Missing'') \<noteq> ''GET''
   \<and> reqMethod (sampleRequest ''DELETE'' ''Foo.Missing'') \<noteq> ''POST''
   \<and> ApiHandler noTitle sampleNew sampleCodec fooRegistry freshWriter
        (sampleRequest ''DELETE'' ''Foo.Missing'')
       = Some (WritePureError freshWriter 404 ''api: Method not found: Foo.Missing'')
   \<and> status (WritePureError freshWriter 404 ''api: Method not found: Foo.Missing'') = 404"
proof -
  have dot: "CHR ''.'' \<in> set ''Foo.Missing''" by simp
  have "ApiHandler noTitle sampleNew sampleCodec fooRegistry freshWriter
        (sampleRequest ''DELETE'' ''Foo.Missing'')
       = Some (WritePureError freshWriter 404 ''api: Method not found: Foo.Missing'')"
    using ApiHandler_dotted [OF sample_ctx(1) dot, of noTitle sampleNew sampleCodec fooRegistry
        freshWriter "''DELETE''"] sample_HasMethod(3)
    by (simp add: sample_titles)
  moreover have "status (WritePureError freshWriter 404 ''api: Method not found: Foo.Missing'') = 404"
    by (simp add: WritePureError_fresh freshWriter_def)
  ultimately show ?thesis by (simp add: sampleRequest_def)
qed

section \<open>ServeHTTP: the outcome of the method\<close>

lemma ServeHTTP_invoked:
  assumes "reqMethod r = ''POST'' \<or> reqMethod r = ''GET''"
    and "codecReq = newRequest r (if HasSuffix (queryFormat r) ''xml'' then serverResponseXML
                                  else serverResponseJSON)"
    and "crMethod codecReq = Inr mth"
    and "get s mth = Inr (serviceSpec, methodSpec)"
    and "crReadRequest codecReq (reflectNew (argsType methodSpec)) = Inr args"
    and "mFunc (smMethod methodSpec) r args (reflectNew (replyType methodSpec)) = (reply, errResult)"
  shows "ServeHTTP reflectNew newRequest s w r =
           (case errResult of
              None \<Rightarrow> crWriteResponse codecReq (HeaderSet w ''x-content-type-options'' ''nosniff'') reply
            | Some e \<Rightarrow> crWriteError codecReq (HeaderSet w ''x-content-type-options'' ''nosniff'') 400 e)"
  using assms by (auto simp: ServeHTTP_def Let_def)

text \<open>
  C7: for a GET or POST request whose method resolves and whose argument decodes, when
  the invoked method returns a non-nil error ServeHTTP has the codec write an error
  response with status 400 and that error, on the writer with the nosniff header set;
  the response is the same whatever reply value the method left, so the reply is not
  written. When the method returns nil, ServeHTTP has the codec write the reply.
\<close>

theorem ServeHTTP_method_error_is_400:
  assumes verb: "reqMethod r = ''POST'' \<or> reqMethod r = ''GET''"
    and codec: "codecReq = newRequest r (if HasSuffix (queryFormat r) ''xml''
                                         then serverResponseXML else serverResponseJSON)"
    and resolves: "crMethod codecReq = Inr mth" "get s mth = Inr (serviceSpec, methodSpec)"
    and decodes: "crReadRequest codecReq (reflectNew (argsType methodSpec)) = Inr args"
  shows
    "(\<forall>reply e.
        mFunc (smMethod methodSpec) r args (reflectNew (replyType methodSpec)) = (reply, Some e) \<longrightarrow>
        ServeHTTP reflectNew newRequest s w r
          = crWriteError codecReq (HeaderSet w ''x-content-type-options'' ''nosniff'') 400 e)
     \<and> (\<forall>reply.
        mFunc (smMethod methodSpec) r args (reflectNew (replyType methodSpec)) = (reply, None) \<longrightarrow>
        ServeHTTP reflectNew newRequest s w r
          = crWriteResponse codecReq (HeaderSet w ''x-content-type-options'' ''nosniff'') reply)"
proof (intro conjI allI impI)
  fix reply e
  assume "mFunc (smMethod methodSpec) r args (reflectNew (replyType methodSpec)) = (reply, Some e)"
  with verb codec resolves decodes
  show "ServeHTTP reflectNew newRequest s w r
          = crWriteError codecReq (HeaderSet w ''x-content-type-options'' ''nosniff'') 400 e"
    by (simp add: ServeHTTP_invoked)
next
  fix reply
  assume "mFunc (smMethod methodSpec) r args (reflectNew (replyType methodSpec)) = (reply, None)"
  with verb codec resolves decodes
  show "ServeHTTP reflectNew newRequest s w r
          = crWriteResponse codecReq (HeaderSet w ''x-content-type-options'' ''nosniff'') reply"
    by (simp add: ServeHTTP_invoked)
qed

lemma sample_get:
  "get fooRegistry ''Foo.Fail''
     = Inr (\<lparr>sName = ''Foo'', sRcvr = fooRcvr, sMethods = setupMethods noUpper (rcvrMethods fooRcvr)\<rparr>,
            \<lparr>smMethod = failMethod, argsType = TOther Struct ''Args'' ''main'',
             replyType = TOther String ''string'' []\<rparr>)"
  "get fooRegistry ''Foo.Echo''
     = Inr (\<lparr>sName = ''Foo'', sRcvr = fooRcvr, sMethods = setupMethods noUpper (rcvrMethods fooRcvr)\<rparr>,
            \<lparr>smMethod = echoMethod, argsType = TOther Struct ''Args'' ''main'',
             replyType = TOther String ''string'' []\<rparr>)"
  by (simp_all add: get_def sample_fooRegistry lookupService_def)
     (simp_all add: sample_methods)

theorem ServeHTTP_method_error_is_400_witness:
  "reqMethod (sampleRequest ''GET'' ''Foo.Fail'') = ''GET''
   \<and> crMethod (sampleCodec (sampleRequest ''GET'' ''Foo.Fail'') serverResponseJSON) = Inr ''Foo.Fail''
   \<and> mFunc failMethod (sampleRequest ''GET'' ''Foo.Fail'') ''x'' [] = (''partial'', Some (Foreign ''boom''))
   \<and> status (ServeHTTP sampleNew sampleCodec fooRegistry freshWriter
               (sampleRequest ''GET'' ''Foo.Fail'')) = 400
   \<and> body (ServeHTTP sampleNew sampleCodec fooRegistry freshWriter
               (sampleRequest ''GET'' ''Foo.Fail'')) = ''boom''
   \<and> mFunc echoMethod (sampleRequest ''GET'' ''Foo.Echo'') ''x'' [] = (''x'', None)
   \<and> status (ServeHTTP sampleNew sampleCodec fooRegistry freshWriter
               (sampleRequest ''GET'' ''Foo.Echo'')) = 200
   \<and> body (ServeHTTP sampleNew sampleCodec fooRegistry freshWriter
               (sampleRequest ''GET'' ''Foo.Echo'')) = ''x''"
proof -
  let ?rf = "sampleRequest ''GET'' ''Foo.Fail''" and ?re = "sampleRequest ''GET'' ''Foo.Echo''"
  have verb: "reqMethod ?rf = ''POST'' \<or> reqMethod ?rf = ''GET''"
    "reqMethod ?re = ''POST'' \<or> reqMethod ?re = ''GET''"
    by (simp_all add: sampleRequest_def)
  have codec: "sampleCodec ?rf serverResponseJSON
      = sampleCodec ?rf (if HasSuffix (queryFormat ?rf) ''xml'' then serverResponseXML
                         else serverResponseJSON)"
    "sampleCodec ?re serverResponseJSON
      = sampleCodec ?re (if HasSuffix (queryFormat ?re) ''xml'' then serverResponseXML
                         else serverResponseJSON)"
    by (simp_all add: sampleRequest_def HasSuffix_def)
  have mth: "crMethod (sampleCodec ?rf serverResponseJSON) = Inr ''Foo.Fail''"
    "crMethod (sampleCodec ?re serverResponseJSON) = Inr ''Foo.Echo''"
    by (simp_all add: sampleCodec_def sampleRequest_def)
  have dec: "crReadRequest (sampleCodec ?rf serverResponseJSON)
      (sampleNew (argsType \<lparr>smMethod = failMethod, argsType = TOther Struct ''Args'' ''main'',
             replyType = TOther String ''string'' []\<rparr>)) = Inr ''x''"
    "crReadRequest (sampleCodec ?re serverResponseJSON)
      (sampleNew (argsType \<lparr>smMethod = echoMethod, argsType = TOther Struct ''Args'' ''main'',
             replyType = TOther String ''string'' []\<rparr>)) = Inr ''x''"
    by (simp_all add: sampleCodec_def)
  have callf: "mFunc failMethod ?rf ''x'' [] = (''partial'', Some (Foreign ''boom''))"
    by (simp add: failMethod_def)
  have calle: "mFunc echoMethod ?re ''x'' [] = (''x'', None)"
    by (simp add: echoMethod_def)
  from ServeHTTP_method_error_is_400
    [where newRequest = sampleCodec and reflectNew = sampleNew and r = ?rf and w = freshWriter,
     OF verb(1) codec(1) mth(1) sample_get(1) dec(1)] callf
  have "ServeHTTP sampleNew sampleCodec fooRegistry freshWriter ?rf
      = crWriteError (sampleCodec ?rf serverResponseJSON)
          (HeaderSet freshWriter ''x-content-type-options'' ''nosniff'') 400 (Foreign ''boom'')"
    by (simp add: sampleNew_def)
  then have f: "status (ServeHTTP sampleNew sampleCodec fooRegistry freshWriter ?rf) = 400"
    "body (ServeHTTP sampleNew sampleCodec fooRegistry freshWriter ?rf) = ''boom''"
    by (simp_all add: sampleCodec_def Write_def WriteHeader_def HeaderSet_def freshWriter_def)
  from ServeHTTP_method_error_is_400
    [where newRequest = sampleCodec and reflectNew = sampleNew and r = ?re and w = freshWriter,
     OF verb(2) codec(2) mth(2) sample_get(2) dec(2)] calle
  have "ServeHTTP sampleNew sampleCodec fooRegistry freshWriter ?re
      = crWriteResponse (sampleCodec ?re serverResponseJSON)
          (HeaderSet freshWriter ''x-content-type-options'' ''nosniff'') ''x''"
    by (simp add: sampleNew_def)
  then have e: "status (ServeHTTP sampleNew sampleCodec fooRegistry freshWriter ?re) = 200"
    "body (ServeHTTP sampleNew sampleCodec fooRegistry freshWriter ?re) = ''x''"
    by (simp_all add: sampleCodec_def Write_def WriteHeader_def HeaderSet_def freshWriter_def)
  have "reqMethod ?rf = ''GET''" by (simp add: sampleRequest_def)
  with mth(1) callf f calle e show ?thesis by blast
qed

section \<open>The nosniff header\<close>

lemma WritePureError_headers:
  "header (WritePureError w st msg) k
     = (if k = ''Content-Type'' then Some ''text/plain; charset=utf-8'' else header w k)"
  "sentHeader (WritePureError w st msg) = (if wroteHeader w then sentHeader w else header w)"
  by (simp_all add: WritePureError_def Write_def WriteHeader_def HeaderSet_def)

text \<open>
  C8, as the code has it: ServeHTTP sets the header x-content-type-options: nosniff
  on the writer once the method has been invoked, before the codec writes the reply or
  the method's error, and nowhere else. An error response for an unsupported verb or
  for a failing \<open>Method()\<close> of the codec is written by WritePureError, which leaves
  that header as it found it, and so is ApiHandler's 404 for an unresolvable or
  malformed identifier; on a failed lookup or decode ServeHTTP hands the writer to the
  codec unchanged.
\<close>

theorem ServeHTTP_sets_nosniff_after_the_call:
  assumes codec: "codecReq = newRequest r (if HasSuffix (queryFormat r) ''xml''
                                         then serverResponseXML else serverResponseJSON)"
  shows
    "((reqMethod r = ''POST'' \<or> reqMethod r = ''GET'') \<longrightarrow>
        (\<forall>mth serviceSpec methodSpec args.
           crMethod codecReq = Inr mth \<and> get s mth = Inr (serviceSpec, methodSpec)
           \<and> crReadRequest codecReq (reflectNew (argsType methodSpec)) = Inr args \<longrightarrow>
           (\<exists>w1 reply errResult.
              w1 = HeaderSet w ''x-content-type-options'' ''nosniff''
              \<and> header w1 ''x-content-type-options'' = Some ''nosniff''
              \<and> wroteHeader w1 = wroteHeader w \<and> body w1 = body w
              \<and> mFunc (smMethod methodSpec) r args (reflectNew (replyType methodSpec))
                  = (reply, errResult)
              \<and> ServeHTTP reflectNew newRequest s w r
                  = (case errResult of
                       None \<Rightarrow> crWriteResponse codecReq w1 reply
                     | Some e \<Rightarrow> crWriteError codecReq w1 400 e)))
        \<and> (\<forall>errMethod. crMethod codecReq = Inl errMethod \<longrightarrow>
              ServeHTTP reflectNew newRequest s w r = WritePureError w 400 errMethod)
        \<and> (\<forall>mth errGet. crMethod codecReq = Inr mth \<and> get s mth = Inl errGet \<longrightarrow>
              ServeHTTP reflectNew newRequest s w r = crWriteError codecReq w 400 errGet)
        \<and> (\<forall>mth serviceSpec methodSpec errRead.
              crMethod codecReq = Inr mth \<and> get s mth = Inr (serviceSpec, methodSpec)
              \<and> crReadRequest codecReq (reflectNew (argsType methodSpec)) = Inl errRead \<longrightarrow>
              ServeHTTP reflectNew newRequest s w r = crWriteError codecReq w 400 errRead))
     \<and> (reqMethod r \<noteq> ''POST'' \<and> reqMethod r \<noteq> ''GET'' \<longrightarrow>
          ServeHTTP reflectNew newRequest s w r
            = WritePureError w 405 (''api: POST or GET method required, received '' @ reqMethod r))
     \<and> (\<forall>st msg. header (WritePureError w st msg) ''x-content-type-options''
                     = header w ''x-content-type-options'')"
proof (intro conjI allI impI)
  fix mth serviceSpec methodSpec args
  assume verb: "reqMethod r = ''POST'' \<or> reqMethod r = ''GET''"
    and h: "crMethod codecReq = Inr mth \<and> get s mth = Inr (serviceSpec, methodSpec)
           \<and> crReadRequest codecReq (reflectNew (argsType methodSpec)) = Inr args"
  obtain reply errResult where
    call: "mFunc (smMethod methodSpec) r args (reflectNew (replyType methodSpec)) = (reply, errResult)"
    by (cases "mFunc (smMethod methodSpec) r args (reflectNew (replyType methodSpec))")
  let ?w1 = "HeaderSet w ''x-content-type-options'' ''nosniff''"
  from h have h1: "crMethod codecReq = Inr mth" and h2: "get s mth = Inr (serviceSpec, methodSpec)"
    and h3: "crReadRequest codecReq (reflectNew (argsType methodSpec)) = Inr args"
    by simp_all
  have "ServeHTTP reflectNew newRequest s w r
      = (case errResult of
           None \<Rightarrow> crWriteResponse codecReq ?w1 reply
         | Some e \<Rightarrow> crWriteError codecReq ?w1 400 e)"
    by (rule ServeHTTP_invoked
          [where newRequest = newRequest and reflectNew = reflectNew and r = r,
           OF verb codec h1 h2 h3 call])
  moreover have "header ?w1 ''x-content-type-options'' = Some ''nosniff''"
    "wroteHeader ?w1 = wroteHeader w" "body ?w1 = body w"
    by (simp_all add: HeaderSet_def)
  ultimately show "\<exists>w1 reply errResult.
              w1 = HeaderSet w ''x-content-type-options'' ''nosniff''
              \<and> header w1 ''x-content-type-options'' = Some ''nosniff''
              \<and> wroteHeader w1 = wroteHeader w \<and> body w1 = body w
              \<and> mFunc (smMethod methodSpec) r args (reflectNew (replyType methodSpec))
                  = (reply, errResult)
              \<and> ServeHTTP reflectNew newRequest s w r
                  = (case errResult of
                       None \<Rightarrow> crWriteResponse codecReq w1 reply
                     | Some e \<Rightarrow> crWriteError codecReq w1 400 e)"
    using call by blast
next
  fix errMethod
  assume "reqMethod r = ''POST'' \<or> reqMethod r = ''GET''" "crMethod codecReq = Inl errMethod"
  with codec show "ServeHTTP reflectNew newRequest s w r = WritePureError w 400 errMethod"
    by (auto simp: ServeHTTP_def Let_def)
next
  fix mth errGet
  assume "reqMethod r = ''POST'' \<or> reqMethod r = ''GET''"
    "crMethod codecReq = Inr mth \<and> get s mth = Inl errGet"
  with codec show "ServeHTTP reflectNew newRequest s w r = crWriteError codecReq w 400 errGet"
    by (auto simp: ServeHTTP_def Let_def)
next
  fix mth serviceSpec methodSpec errRead
  assume "reqMethod r = ''POST'' \<or> reqMethod r = ''GET''"
    "crMethod codecReq = Inr mth \<and> get s mth = Inr (serviceSpec, methodSpec)
              \<and> crReadRequest codecReq (reflectNew (argsType methodSpec)) = Inl errRead"
  with codec show "ServeHTTP reflectNew newRequest s w r = crWriteError codecReq w 400 errRead"
    by (auto simp: ServeHTTP_def Let_def)
next
  assume "reqMethod r \<noteq> ''POST'' \<and> reqMethod r \<noteq> ''GET''"
  then show "ServeHTTP reflectNew newRequest s w r
            = WritePureError w 405 (''api: POST or GET method required, received '' @ reqMethod r)"
    by (simp add: ServeHTTP_bad_verb)
next
  fix st msg
  show "header (WritePureError w st msg) ''x-content-type-options''
          = header w ''x-content-type-options''"
    by (simp add: WritePureError_headers)
qed

theorem ServeHTTP_sets_nosniff_after_the_call_witness:
  "reqMethod (sampleRequest ''GET'' ''Foo.Echo'') = ''GET''
   \<and> header (ServeHTTP sampleNew sampleCodec fooRegistry freshWriter
               (sampleRequest ''GET'' ''Foo.Echo'')) ''x-content-type-options'' = Some ''nosniff''
   \<and> sentHeader (ServeHTTP sampleNew sampleCodec fooRegistry freshWriter
               (sampleRequest ''GET'' ''Foo.Echo'')) ''x-content-type-options'' = Some ''nosniff''
   \<and> header (ServeHTTP sampleNew sampleCodec fooRegistry freshWriter
               (sampleRequest ''GET'' ''Foo.Fail'')) ''x-content-type-options'' = Some ''nosniff''"
proof -
  let ?rf = "sampleRequest ''GET'' ''Foo.Fail''" and ?re = "sampleRequest ''GET'' ''Foo.Echo''"
  let ?w1 = "HeaderSet freshWriter ''x-content-type-options'' ''nosniff''"
  have verb: "reqMethod ?rf = ''POST'' \<or> reqMethod ?rf = ''GET''"
    "reqMethod ?re = ''POST'' \<or> reqMethod ?re = ''GET''"
    by (simp_all add: sampleRequest_def)
  have codec: "sampleCodec ?rf serverResponseJSON
      = sampleCodec ?rf (if HasSuffix (queryFormat ?rf) ''xml'' then serverResponseXML
                         else serverResponseJSON)"
    "sampleCodec ?re serverResponseJSON
      = sampleCodec ?re (if HasSuffix (queryFormat ?re) ''xml'' then serverResponseXML
                         else serverResponseJSON)"
    by (simp_all add: sampleRequest_def HasSuffix_def)
  have mth: "crMethod (sampleCodec ?rf serverResponseJSON) = Inr ''Foo.Fail''"
    "crMethod (sampleCodec ?re serverResponseJSON) = Inr ''Foo.Echo''"
    by (simp_all add: sampleCodec_def sampleRequest_def)
  have dec: "crReadRequest (sampleCodec ?rf serverResponseJSON)
      (sampleNew (argsType \<lparr>smMethod = failMethod, argsType = TOther Struct ''Args'' ''main'',
             replyType = TOther String ''string'' []\<rparr>)) = Inr ''x''"
    "crReadRequest (sampleCodec ?re serverResponseJSON)
      (sampleNew (argsType \<lparr>smMethod = echoMethod, argsType = TOther Struct ''Args'' ''main'',
             replyType = TOther String ''string'' []\<rparr>)) = Inr ''x''"
    by (simp_all add: sampleCodec_def)
  from ServeHTTP_sets_nosniff_after_the_call
    [where newRequest = sampleCodec and reflectNew = sampleNew and r = ?re and w = freshWriter
       and s = fooRegistry, OF codec(2)]
    verb(2) mth(2) sample_get(2) dec(2)
  obtain reply errResult where
    call: "mFunc (smMethod \<lparr>smMethod = echoMethod, argsType = TOther Struct ''Args'' ''main'',
             replyType = TOther String ''string'' []\<rparr>) ?re ''x''
           (sampleNew (replyType \<lparr>smMethod = echoMethod, argsType = TOther Struct ''Args'' ''main'',
             replyType = TOther String ''string'' []\<rparr>)) = (reply, errResult)" and
    out: "ServeHTTP sampleNew sampleCodec fooRegistry freshWriter ?re
      = (case errResult of
           None \<Rightarrow> crWriteResponse (sampleCodec ?re serverResponseJSON) ?w1 reply
         | Some e \<Rightarrow> crWriteError (sampleCodec ?re serverResponseJSON) ?w1 400 e)"
    by blast
  from call have "reply = ''x''" "errResult = None" by (simp_all add: echoMethod_def)
  with out have e: "header (ServeHTTP sampleNew sampleCodec fooRegistry freshWriter ?re)
        ''x-content-type-options'' = Some ''nosniff''"
    "sentHeader (ServeHTTP sampleNew sampleCodec fooRegistry freshWriter ?re)
        ''x-content-type-options'' = Some ''nosniff''"
    by (simp_all add: sampleCodec_def Write_def WriteHeader_def HeaderSet_def freshWriter_def)
  from ServeHTTP_sets_nosniff_after_the_call
    [where newRequest = sampleCodec and reflectNew = sampleNew and r = ?rf and w = freshWriter
       and s = fooRegistry, OF codec(1)]
    verb(1) mth(1) sample_get(1) dec(1)
  obtain reply2 errResult2 where
    call2: "mFunc (smMethod \<lparr>smMethod = failMethod, argsType = TOther Struct ''Args'' ''main'',
             replyType = TOther String ''string'' []\<rparr>) ?rf ''x''
           (sampleNew (replyType \<lparr>smMethod = failMethod, argsType = TOther Struct ''Args'' ''main'',
             replyType = TOther String ''string'' []\<rparr>)) = (reply2, errResult2)" and
    out2: "ServeHTTP sampleNew sampleCodec fooRegistry freshWriter ?rf
      = (case errResult2 of
           None \<Rightarrow> crWriteResponse (sampleCodec ?rf serverResponseJSON) ?w1 reply2
         | Some e \<Rightarrow> crWriteError (sampleCodec ?rf serverResponseJSON) ?w1 400 e)"
    by blast
  from call2 have "errResult2 = Some (Foreign ''boom'')" by (simp add: failMethod_def)
  with out2 have f: "header (ServeHTTP sampleNew sampleCodec fooRegistry freshWriter ?rf)
        ''x-content-type-options'' = Some ''nosniff''"
    by (simp add: sampleCodec_def Write_def WriteHeader_def HeaderSet_def freshWriter_def)
  have "reqMethod ?re = ''GET''" by (simp add: sampleRequest_def)
  with e f show ?thesis by blast
qed

text \<open>
  C8 as the specification words it fails on the error responses that WritePureError
  writes: the 405 of
  ServeHTTP for a DELETE request and the 404 of ApiHandler for an unregistered
  identifier carry no x-content-type-options header, neither in the header map nor
  among the headers written with the status.
\<close>

theorem nosniff_missing_counterexample:
  "status (ServeHTTP sampleNew sampleCodec fooRegistry freshWriter
             (sampleRequest ''DELETE'' ''Foo.Echo'')) = 405
   \<and> header (ServeHTTP sampleNew sampleCodec fooRegistry freshWriter
               (sampleRequest ''DELETE'' ''Foo.Echo'')) ''x-content-type-options'' = None
   \<and> sentHeader (ServeHTTP sampleNew sampleCodec fooRegistry freshWriter
               (sampleRequest ''DELETE'' ''Foo.Echo'')) ''x-content-type-options'' = None
   \<and> ApiHandler noTitle sampleNew sampleCodec fooRegistry freshWriter
        (sampleRequest ''GET'' ''Foo.Missing'')
       = Some (WritePureError freshWriter 404 ''api: Method not found: Foo.Missing'')
   \<and> header (WritePureError freshWriter 404 ''api: Method not found: Foo.Missing'')
         ''x-content-type-options'' = None
   \<and> sentHeader (WritePureError freshWriter 404 ''api: Method not found: Foo.Missing'')
         ''x-content-type-options'' = None"
proof -
  have dot: "CHR ''.'' \<in> set ''Foo.Missing''" by simp
  have a: "ApiHandler noTitle sampleNew sampleCodec fooRegistry freshWriter
        (sampleRequest ''GET'' ''Foo.Missing'')
       = Some (WritePureError freshWriter 404 ''api: Method not found: Foo.Missing'')"
    using ApiHandler_dotted [OF sample_ctx(1) dot, of noTitle sampleNew sampleCodec fooRegistry
        freshWriter "''GET''"] sample_HasMethod(3)
    by (simp add: sample_titles)
  have b: "ServeHTTP sampleNew sampleCodec fooRegistry freshWriter
             (sampleRequest ''DELETE'' ''Foo.Echo'')
      = WritePureError freshWriter 405 ''api: POST or GET method required, received DELETE''"
    by (simp add: ServeHTTP_bad_verb sampleRequest_def)
  have c: "header (WritePureError freshWriter st msg) ''x-content-type-options'' = None"
    "sentHeader (WritePureError freshWriter st msg) ''x-content-type-options'' = None"
    "status (WritePureError freshWriter st msg) = st" for st msg
    by (simp_all add: WritePureError_headers WritePureError_fresh freshWriter_def)
  from a b c show ?thesis by simp
qed

section \<open>The registry only grows\<close>

lemma Split_no_sep: "sep \<notin> set s \<Longrightarrow> Split s sep = [s]"
  by (induction s) auto

lemma Split_at_sep:
  "sep \<notin> set pre \<Longrightarrow> Split (pre @ sep # post) sep = pre # Split post sep"
  by (induction pre) auto

lemma Split_dotted:
  "CHR ''.'' \<notin> set n \<Longrightarrow> CHR ''.'' \<notin> set k \<Longrightarrow> Split (n @ ''.'' @ k) (CHR ''.'') = [n, k]"
  by (simp add: Split_at_sep Split_no_sep)

lemma get_dotted:
  assumes "CHR ''.'' \<notin> set n" and "CHR ''.'' \<notin> set k"
    and "lookupService m n = Some svc" and "map_of (sMethods svc) k = Some sm"
  shows "get m (n @ ''.'' @ k) = Inr (svc, sm)"
  using assms Split_dotted [OF assms(1,2)] by (simp add: get_def)

lemma register_result:
  "snd (register upperTab m rcvr nm) = m
   \<or> (\<exists>sname rc. fst (register upperTab m rcvr nm) = None \<and> rcvr = Some rc
         \<and> setupService upperTab rcvr nm = Inr sname \<and> lookupService m sname = None
         \<and> snd (register upperTab m rcvr nm)
             = m\<lparr>services := Some (AList.update sname
                 \<lparr>sName = sname, sRcvr = rc, sMethods = setupMethods upperTab (rcvrMethods rc)\<rparr>
                 (case services m of None \<Rightarrow> [] | Some mp \<Rightarrow> mp))\<rparr>)"
proof (cases "setupService upperTab rcvr nm")
  case (Inl e)
  then show ?thesis by (simp add: register_outcome)
next
  case (Inr sname)
  show ?thesis
  proof (cases rcvr)
    case None
    with Inr show ?thesis by (simp add: register_outcome)
  next
    case (Some rc)
    show ?thesis
    proof (cases "lookupService m sname")
      case None
      with Inr Some show ?thesis by (simp add: register_outcome)
    next
      case (Some old)
      with Inr \<open>rcvr = Some rc\<close> show ?thesis by (simp add: register_outcome)
    qed
  qed
qed

lemma register_keeps_entries:
  assumes "lookupService m n = Some svc"
  shows "lookupService (snd (register upperTab m rcvr nm)) n = Some svc"
  using register_result [of upperTab m rcvr nm]
proof
  assume "snd (register upperTab m rcvr nm) = m"
  with assms show ?thesis by simp
next
  assume "\<exists>sname rc. fst (register upperTab m rcvr nm) = None \<and> rcvr = Some rc
         \<and> setupService upperTab rcvr nm = Inr sname \<and> lookupService m sname = None
         \<and> snd (register upperTab m rcvr nm)
             = m\<lparr>services := Some (AList.update sname
                 \<lparr>sName = sname, sRcvr = rc, sMethods = setupMethods upperTab (rcvrMethods rc)\<rparr>
                 (case services m of None \<Rightarrow> [] | Some mp \<Rightarrow> mp))\<rparr>"
  then obtain sname rc where free: "lookupService m sname = None"
    and m1: "snd (register upperTab m rcvr nm)
             = m\<lparr>services := Some (AList.update sname
                 \<lparr>sName = sname, sRcvr = rc, sMethods = setupMethods upperTab (rcvrMethods rc)\<rparr>
                 (case services m of None \<Rightarrow> [] | Some mp \<Rightarrow> mp))\<rparr>"
    by blast
  from free assms have "n \<noteq> sname" by auto
  with assms show ?thesis by (simp add: m1 lookupService_stored_other)
qed

lemma registerAll_keeps_entries:
  "lookupService m n = Some svc \<Longrightarrow> lookupService (registerAll upperTab m later) n = Some svc"
proof (induction later arbitrary: m)
  case Nil
  then show ?case by simp
next
  case (Cons a later)
  obtain rcvr nm where a: "a = (rcvr, nm)" by (cases a)
  from Cons.prems have "lookupService (snd (register upperTab m rcvr nm)) n = Some svc"
    by (rule register_keeps_entries)
  from Cons.IH [OF this] a show ?case by simp
qed

text \<open>
  C9, as the code has it: after a service has been registered under a name N that holds
  no dot, with a qualifying method whose name M holds no dot (a Go method name never
  does), HasMethod("N.M") is true in the registry that registration left and in the
  registry after any later run of registration attempts, successful or not (register
  is the only operation that changes the registry, and it never removes or replaces an
  entry). HasMethod(m) is true exactly when get(m) returns no error.
\<close>

theorem HasMethod_after_registration:
  assumes reg: "register upperTab (m :: 'v serviceMap) (Some rc) nm = (None, m1)"
    and sname: "setupService upperTab (Some rc) nm = Inr sname"
    and meth: "mt \<in> set (rcvrMethods rc)" "qualifies upperTab mt"
    and nodots: "CHR ''.'' \<notin> set sname" "CHR ''.'' \<notin> set (mName mt)"
  shows
    "HasMethod m1 (sname @ ''.'' @ mName mt)
     \<and> (\<forall>later. HasMethod (registerAll upperTab m1 later) (sname @ ''.'' @ mName mt))
     \<and> (\<forall>(s :: 'v serviceMap) x. HasMethod s x = (\<forall>e. get s x \<noteq> Inl e))"
proof -
  let ?svc = "\<lparr>sName = sname, sRcvr = rc, sMethods = setupMethods upperTab (rcvrMethods rc)\<rparr>"
  from reg sname
  have "m1 = m\<lparr>services := Some (AList.update sname ?svc
                 (case services m of None \<Rightarrow> [] | Some mp \<Rightarrow> mp))\<rparr>"
    by (cases "lookupService m sname") (auto simp: register_outcome split: if_splits)
  then have m1: "lookupService m1 sname = Some ?svc"
    by (simp add: lookupService_stored)
  from methods_loop_present [OF meth, of "[]"] obtain sm where
    sm: "map_of (sMethods ?svc) (mName mt) = Some sm"
    by (auto simp: setupMethods_def)
  have later: "HasMethod (registerAll upperTab m1 later) (sname @ ''.'' @ mName mt)" for later
    using get_dotted [OF nodots registerAll_keeps_entries [OF m1] sm]
    by (simp add: HasMethod_def)
  from later [of "[]"] have now: "HasMethod m1 (sname @ ''.'' @ mName mt)" by simp
  have iff: "HasMethod s x = (\<forall>e. get s x \<noteq> Inl e)" for s :: "'v serviceMap" and x
    by (cases "get s x") (simp_all add: HasMethod_def)
  from now later iff show ?thesis by blast
qed

theorem HasMethod_after_registration_witness:
  "register noUpper emptyRegistry (Some fooRcvr) [] = (None, fooRegistry)
   \<and> setupService noUpper (Some fooRcvr) [] = Inr ''Foo''
   \<and> echoMethod \<in> set (rcvrMethods fooRcvr) \<and> qualifies noUpper echoMethod
   \<and> CHR ''.'' \<notin> set ''Foo'' \<and> CHR ''.'' \<notin> set (mName echoMethod)
   \<and> HasMethod fooRegistry ''Foo.Echo''
   \<and> HasMethod (registerAll noUpper fooRegistry
         [(Some closeOnlyRcvr, ''Other''), (None, ''Nil''), (Some fooRcvr, []), (Some fooRcvr, ''Bar'')])
       ''Foo.Echo''"
proof -
  have first: "register noUpper emptyRegistry (Some fooRcvr) [] = (None, fooRegistry)"
    using sample_register_ok by (simp add: fooRegistry_def prod_eq_iff)
  have e: "echoMethod \<in> set (rcvrMethods fooRcvr)" by (simp add: fooRcvr_def)
  have d: "CHR ''.'' \<notin> set ''Foo''" "CHR ''.'' \<notin> set (mName echoMethod)"
    by (simp_all add: echoMethod_def)
  note t = HasMethod_after_registration [OF first sample_setupService(1) e sample_qualifies(1) d]
  from t have a: "HasMethod fooRegistry (''Foo'' @ ''.'' @ mName echoMethod)" by blast
  from t have b: "HasMethod (registerAll noUpper fooRegistry
         [(Some closeOnlyRcvr, ''Other''), (None, ''Nil''), (Some fooRcvr, []), (Some fooRcvr, ''Bar'')])
       (''Foo'' @ ''.'' @ mName echoMethod)"
    by blast
  from a b have "HasMethod fooRegistry ''Foo.Echo''"
    "HasMethod (registerAll noUpper fooRegistry
         [(Some closeOnlyRcvr, ''Other''), (None, ''Nil''), (Some fooRcvr, []), (Some fooRcvr, ''Bar'')])
       ''Foo.Echo''"
    by (simp_all add: echoMethod_def)
  with first sample_setupService(1) e sample_qualifies(1) d show ?thesis by blast
qed

text \<open>
  C9 as the specification words it fails for a service name that holds a dot:
  RegisterService accepts the name
  "a.b" for the sample receiver, whose method Echo qualifies, and HasMethod("a.b.Echo")
  is false right after, because get splits the key into three parts.
\<close>

theorem HasMethod_dotted_name_counterexample:
  "fst (register noUpper emptyRegistry (Some fooRcvr) ''a.b'') = None
   \<and> echoMethod \<in> set (rcvrMethods fooRcvr) \<and> qualifies noUpper echoMethod
   \<and> (\<exists>svc sm. lookupService (snd (register noUpper emptyRegistry (Some fooRcvr) ''a.b'')) ''a.b''
                   = Some svc
          \<and> map_of (sMethods svc) ''Echo'' = Some sm \<and> smMethod sm = echoMethod)
   \<and> \<not> HasMethod (snd (register noUpper emptyRegistry (Some fooRcvr) ''a.b'')) ''a.b.Echo''
   \<and> get (snd (register noUpper emptyRegistry (Some fooRcvr) ''a.b'')) ''a.b.Echo''
       = Inl (IllFormed ''a.b.Echo'')"
proof -
  have sn: "setupService noUpper (Some fooRcvr) ''a.b'' = Inr ''a.b''"
    by (simp add: setupService_def)
  have q: "\<not> (\<forall>mt\<in>set (rcvrMethods fooRcvr). \<not> qualifies noUpper mt)"
    using sample_qualifies(1) by (auto simp: fooRcvr_def)
  have free: "lookupService emptyRegistry ''a.b'' = None"
    by (simp add: lookupService_def emptyRegistry_def)
  from sn q free have r: "register noUpper emptyRegistry (Some fooRcvr) ''a.b''
      = (None, emptyRegistry\<lparr>services := Some (AList.update ''a.b''
           \<lparr>sName = ''a.b'', sRcvr = fooRcvr, sMethods = setupMethods noUpper (rcvrMethods fooRcvr)\<rparr>
           (case services emptyRegistry of None \<Rightarrow> [] | Some mp \<Rightarrow> mp))\<rparr>)"
    by (simp add: register_outcome)
  have e: "echoMethod \<in> set (rcvrMethods fooRcvr)" by (simp add: fooRcvr_def)
  have ill: "get s ''a.b.Echo'' = Inl (IllFormed ''a.b.Echo'')" for s :: "string serviceMap"
    by (simp add: get_def)
  have stored: "\<exists>svc sm. lookupService (snd (register noUpper emptyRegistry (Some fooRcvr) ''a.b'')) ''a.b''
                   = Some svc
          \<and> map_of (sMethods svc) ''Echo'' = Some sm \<and> smMethod sm = echoMethod"
    by (simp add: r lookupService_stored sample_methods)
  from r e sample_qualifies(1) stored ill show ?thesis
    by (simp add: HasMethod_def)
qed

end
